theory Spec2Isabelle
  imports Main "HOL-Library.Word" "HOL-Library.Monad_Syntax"
begin

section \<open>Errors\<close>

text \<open>
  Go's \<open>error\<close> values as the program meets them. The cluster client answers a failed
  call with a status error that carries a reason and a message (the outcomes
  \<open>NotFound\<close>, \<open>AlreadyExists\<close> and \<open>Denied\<close> of the accessor interface are reasons);
  every other failure (network, authentication, I/O, parsing) is an error with only a
  message. \<open>fmt.Errorf("<prefix>%w", err)\<close> is \<open>Wrapped\<close>; \<open>wait.ErrWaitTimeout\<close> is the
  error of a poll that ran out of time.
\<close>

datatype StatusReason = AlreadyExists | NotFound | Forbidden | Unauthorized | ReasonUnknown

datatype error =
    StatusError StatusReason string
  | ErrorString string
  | Wrapped string error
  | ErrWaitTimeout

text \<open>The method \<open>Error()\<close>: the message of an error.\<close>

fun Error :: "error \<Rightarrow> string" where
  "Error (StatusError r m) = m"
| "Error (ErrorString m) = m"
| "Error (Wrapped p e) = p @ Error e"
| "Error ErrWaitTimeout = ''timed out waiting for the condition''"

section \<open>Configuration (internal/config/config.go)\<close>

text \<open>
  Go's \<open>int\<close> is 64 bits wide on the platforms the tool is built for. A field name that
  several structs share (\<open>Enabled\<close>, \<open>Provider\<close>, \<open>Version\<close>, \<open>HPA\<close>) keeps its name in the
  first of them and carries the name of its struct in the others.
\<close>

type_synonym go_int = "64 word"

record GitOpsConfig =
  Provider :: string
  RepoURL :: string
  Branch :: string
  Path :: string

record ComponentConfig =
  Enabled :: bool
  Version :: string

record IngressConfig =
  IngressEnabled :: bool
  IngressProvider :: string
  IngressVersion :: string

record PlatformConfig =
  MetricsServer :: ComponentConfig
  KubeStateMetrics :: ComponentConfig
  PrometheusStack :: ComponentConfig
  Ingress :: IngressConfig
  CertManager :: ComponentConfig

record PolicyConfig =
  PolicyEnabled :: bool
  PolicyProvider :: string
  PolicyVersion :: string
  PodSecurityStandard :: string
  CustomPolicies :: "string list"

record NetworkPolicyConfig =
  NetworkPolicyEnabled :: bool
  DefaultDeny :: bool
  SystemNamespaces :: "string list"

record HPAConfig =
  HPAEnabled :: bool

record NodeAutoscalerConfig =
  NodeAutoscalerEnabled :: bool
  NodeAutoscalerProvider :: string
  NodeAutoscalerVersion :: string

record AutoscalingConfig =
  AutoscalingHPA :: HPAConfig
  NodeAutoscaler :: NodeAutoscalerConfig

record ResourceList =
  CPU :: string
  Memory :: string

record ResourcesSpec =
  Requests :: ResourceList
  Limits :: ResourceList

record HPASpec =
  MinReplicas :: go_int
  MaxReplicas :: go_int
  TargetCPUUtilization :: go_int

record PDBSpec =
  MinAvailable :: go_int

record DemoConfig =
  Namespace :: string
  Replicas :: go_int
  Resources :: ResourcesSpec
  HPA :: HPASpec
  PDB :: PDBSpec

record VerifyConfig =
  Timeout :: string
  Parallel :: bool
  Tests :: "string list"

record Config =
  ClusterProfile :: string
  Mode :: string
  GitOps :: GitOpsConfig
  Platform :: PlatformConfig
  Policy :: PolicyConfig
  NetworkPolicy :: NetworkPolicyConfig
  Autoscaling :: AutoscalingConfig
  Demo :: DemoConfig
  Verify :: VerifyConfig

definition DefaultConfig :: "string \<Rightarrow> string \<Rightarrow> Config" where
  "DefaultConfig profile mode =
    \<lparr> ClusterProfile = profile,
      Mode = mode,
      GitOps = \<lparr> Provider = ''flux'', RepoURL = '''', Branch = ''main'',
                 Path = ''clusters/my-cluster'' \<rparr>,
      Platform = \<lparr>
        MetricsServer = \<lparr> Enabled = True, Version = ''v0.7.0'' \<rparr>,
        KubeStateMetrics = \<lparr> Enabled = True, Version = ''v2.10.1'' \<rparr>,
        PrometheusStack = \<lparr> Enabled = False, Version = ''v55.5.0'' \<rparr>,
        Ingress = \<lparr> IngressEnabled = False, IngressProvider = ''nginx'',
                    IngressVersion = ''v1.9.5'' \<rparr>,
        CertManager = \<lparr> Enabled = False, Version = ''v1.13.3'' \<rparr> \<rparr>,
      Policy = \<lparr> PolicyEnabled = True, PolicyProvider = ''kyverno'',
                 PolicyVersion = ''v1.11.4'', PodSecurityStandard = ''restricted'',
                 CustomPolicies = [''require-non-root-user'', ''require-ro-rootfs'',
                                   ''disallow-privileged''] \<rparr>,
      NetworkPolicy = \<lparr> NetworkPolicyEnabled = True, DefaultDeny = True,
                        SystemNamespaces = [''kube-system'', ''kube-public'',
                                            ''kubac-system''] \<rparr>,
      Autoscaling = \<lparr>
        AutoscalingHPA = \<lparr> HPAEnabled = True \<rparr>,
        NodeAutoscaler = \<lparr> NodeAutoscalerEnabled = False,
                           NodeAutoscalerProvider = ''cluster-autoscaler'',
                           NodeAutoscalerVersion = ''v1.29.0'' \<rparr> \<rparr>,
      Demo = \<lparr> Namespace = ''kubac-demo'', Replicas = 2,
               Resources = \<lparr> Requests = \<lparr> CPU = ''100m'', Memory = ''128Mi'' \<rparr>,
                             Limits = \<lparr> CPU = ''200m'', Memory = ''256Mi'' \<rparr> \<rparr>,
               HPA = \<lparr> MinReplicas = 2, MaxReplicas = 10, TargetCPUUtilization = 50 \<rparr>,
               PDB = \<lparr> MinAvailable = 1 \<rparr> \<rparr>,
      Verify = \<lparr> Timeout = ''300s'', Parallel = True,
                 Tests = [''pod-selfheal'', ''hpa-scale'', ''policy-deny'',
                          ''network-deny''] \<rparr> \<rparr>"

section \<open>The configuration as a YAML document\<close>

text \<open>
  Modelled from the spec: the YAML codec gopkg.in/yaml.v3 is not among the sources.
  A document is a tree of mappings, string sequences and scalars. Marshalling a struct
  yields the mapping of its fields under the keys of their \<open>yaml\<close> tags in config.go, in
  the order of declaration and with every field present. Unmarshalling (section 6 of the
  specification) looks the keys up: a key that is unknown is ignored, a key that is
  missing leaves the zero value, and a value of the wrong kind is an error of the
  decoder.
\<close>

datatype yamlNode =
    YString string
  | YInt go_int
  | YBool bool
  | YStrings "string list"
  | YMap "(string \<times> yamlNode) list"







definition encodeGitOpsConfig :: "GitOpsConfig \<Rightarrow> yamlNode" where
  "encodeGitOpsConfig g =
     YMap [(''provider'', YString (Provider g)), (''repoURL'', YString (RepoURL g)),
           (''branch'', YString (Branch g)), (''path'', YString (Path g))]"


definition encodeComponentConfig :: "ComponentConfig \<Rightarrow> yamlNode" where
  "encodeComponentConfig c =
     YMap [(''enabled'', YBool (Enabled c)), (''version'', YString (Version c))]"


definition encodeIngressConfig :: "IngressConfig \<Rightarrow> yamlNode" where
  "encodeIngressConfig c =
     YMap [(''enabled'', YBool (IngressEnabled c)), (''provider'', YString (IngressProvider c)),
           (''version'', YString (IngressVersion c))]"


definition encodePlatformConfig :: "PlatformConfig \<Rightarrow> yamlNode" where
  "encodePlatformConfig p =
     YMap [(''metricsServer'', encodeComponentConfig (MetricsServer p)),
           (''kubeStateMetrics'', encodeComponentConfig (KubeStateMetrics p)),
           (''prometheusStack'', encodeComponentConfig (PrometheusStack p)),
           (''ingress'', encodeIngressConfig (Ingress p)),
           (''certManager'', encodeComponentConfig (CertManager p))]"


definition encodePolicyConfig :: "PolicyConfig \<Rightarrow> yamlNode" where
  "encodePolicyConfig p =
     YMap [(''enabled'', YBool (PolicyEnabled p)), (''provider'', YString (PolicyProvider p)),
           (''version'', YString (PolicyVersion p)),
           (''podSecurityStandard'', YString (PodSecurityStandard p)),
           (''customPolicies'', YStrings (CustomPolicies p))]"


definition encodeNetworkPolicy :: "NetworkPolicyConfig \<Rightarrow> yamlNode" where
  "encodeNetworkPolicy n =
     YMap [(''enabled'', YBool (NetworkPolicyEnabled n)), (''defaultDeny'', YBool (DefaultDeny n)),
           (''systemNamespaces'', YStrings (SystemNamespaces n))]"


definition encodeHPAConfig :: "HPAConfig \<Rightarrow> yamlNode" where
  "encodeHPAConfig c = YMap [(''enabled'', YBool (HPAEnabled c))]"


definition encodeNodeAutoscalerConfig :: "NodeAutoscalerConfig \<Rightarrow> yamlNode" where
  "encodeNodeAutoscalerConfig c =
     YMap [(''enabled'', YBool (NodeAutoscalerEnabled c)),
           (''provider'', YString (NodeAutoscalerProvider c)),
           (''version'', YString (NodeAutoscalerVersion c))]"


definition encodeAutoscalingConfig :: "AutoscalingConfig \<Rightarrow> yamlNode" where
  "encodeAutoscalingConfig a =
     YMap [(''hpa'', encodeHPAConfig (AutoscalingHPA a)),
           (''nodeAutoscaler'', encodeNodeAutoscalerConfig (NodeAutoscaler a))]"


definition encodeResourceList :: "ResourceList \<Rightarrow> yamlNode" where
  "encodeResourceList r = YMap [(''cpu'', YString (CPU r)), (''memory'', YString (Memory r))]"


definition encodeResourcesSpec :: "ResourcesSpec \<Rightarrow> yamlNode" where
  "encodeResourcesSpec r =
     YMap [(''requests'', encodeResourceList (Requests r)),
           (''limits'', encodeResourceList (Limits r))]"


definition encodeHPASpec :: "HPASpec \<Rightarrow> yamlNode" where
  "encodeHPASpec s =
     YMap [(''minReplicas'', YInt (MinReplicas s)), (''maxReplicas'', YInt (MaxReplicas s)),
           (''targetCPUUtilization'', YInt (TargetCPUUtilization s))]"


definition encodePDBSpec :: "PDBSpec \<Rightarrow> yamlNode" where
  "encodePDBSpec s = YMap [(''minAvailable'', YInt (MinAvailable s))]"


definition encodeDemoConfig :: "DemoConfig \<Rightarrow> yamlNode" where
  "encodeDemoConfig d =
     YMap [(''namespace'', YString (Namespace d)), (''replicas'', YInt (Replicas d)),
           (''resources'', encodeResourcesSpec (Resources d)),
           (''hpa'', encodeHPASpec (HPA d)), (''pdb'', encodePDBSpec (PDB d))]"


definition encodeVerifyConfig :: "VerifyConfig \<Rightarrow> yamlNode" where
  "encodeVerifyConfig v =
     YMap [(''timeout'', YString (Timeout v)), (''parallel'', YBool (Parallel v)),
           (''tests'', YStrings (Tests v))]"


definition encodeConfig :: "Config \<Rightarrow> yamlNode" where
  "encodeConfig c =
     YMap [(''clusterProfile'', YString (ClusterProfile c)), (''mode'', YString (Mode c)),
           (''gitops'', encodeGitOpsConfig (GitOps c)),
           (''platform'', encodePlatformConfig (Platform c)),
           (''policy'', encodePolicyConfig (Policy c)),
           (''networkPolicy'', encodeNetworkPolicy (NetworkPolicy c)),
           (''autoscaling'', encodeAutoscalingConfig (Autoscaling c)),
           (''demo'', encodeDemoConfig (Demo c)),
           (''verify'', encodeVerifyConfig (Verify c))]"


section \<open>Cluster objects and the cluster client\<close>

text \<open>
  The objects the program reads, with the fields it reads. Replica counts are \<open>int32\<close>.
  \<open>Spec.Replicas\<close> of a deployment is a pointer in the client library; the API server
  fills it in for every stored deployment, so it is a plain value here.
\<close>

record Deployment =
  SpecReplicas :: "32 word"
  ReadyReplicas :: "32 word"

record Container =
  ContainerName :: string
  Image :: string
  Privileged :: "bool option"

record Pod =
  PodName :: string
  PodNamespace :: string
  Containers :: "Container list"

record HorizontalPodAutoscaler =
  SpecMinReplicas :: "32 word option"
  SpecMaxReplicas :: "32 word"
  CurrentReplicas :: "32 word"

record NetworkPolicyObject =
  SpecIngress :: "string list"
  SpecEgress :: "string list"

record GroupVersionResource =
  Group :: string
  GVRVersion :: string
  Resource :: string

record Unstructured =
  ObjGroup :: string
  ObjVersion :: string
  ObjKind :: string
  ObjNamespace :: string
  ObjName :: string

text \<open>
  The cluster is an external collaborator: its state is a value of an arbitrary type
  \<open>'c\<close>, and the client is a record of operations on it. Every call takes the cluster
  state and returns its answer with the state after the call; whatever the cluster does
  on its own between two calls (a controller replacing a pod while the program sleeps)
  is part of that transition. An operation is named after the call it stands for:
  \<open>DeploymentsGet namespace name\<close> is \<open>AppsV1().Deployments(namespace).Get(ctx, name, ...)\<close>,
  \<open>PodsList namespace selector\<close> is \<open>CoreV1().Pods(namespace).List\<close> with that label
  selector, and so on; \<open>DynamicApply\<close> is the server-side apply of the dynamic client.
  \<open>Now\<close> reads the wall clock (nanoseconds) and \<open>DurationString\<close> is
  \<open>time.Duration.String\<close>.
\<close>

record 'c kube =
  Now :: "'c \<Rightarrow> int"
  DurationString :: "int \<Rightarrow> string"
  DeploymentsGet :: "string \<Rightarrow> string \<Rightarrow> 'c \<Rightarrow> (error + Deployment) \<times> 'c"
  PodsList :: "string \<Rightarrow> string \<Rightarrow> 'c \<Rightarrow> (error + Pod list) \<times> 'c"
  PodsDelete :: "string \<Rightarrow> string \<Rightarrow> 'c \<Rightarrow> error option \<times> 'c"
  PodsCreate :: "string \<Rightarrow> Pod \<Rightarrow> 'c \<Rightarrow> (error + Pod) \<times> 'c"
  HPAGet :: "string \<Rightarrow> string \<Rightarrow> 'c \<Rightarrow> (error + HorizontalPodAutoscaler) \<times> 'c"
  NetworkPoliciesList :: "string \<Rightarrow> 'c \<Rightarrow> (error + NetworkPolicyObject list) \<times> 'c"
  NamespacesCreate :: "string \<Rightarrow> 'c \<Rightarrow> error option \<times> 'c"
  NamespacesDelete :: "string \<Rightarrow> 'c \<Rightarrow> error option \<times> 'c"
  DynamicApply :: "GroupVersionResource \<Rightarrow> string \<Rightarrow> string \<Rightarrow> Unstructured \<Rightarrow> 'c
                     \<Rightarrow> error option \<times> 'c"

section \<open>The condition poller\<close>

type_synonym Duration = int

definition Second :: Duration where
  "Second = 1000000000"

text \<open>
  Modelled from the spec: \<open>wait.PollImmediate\<close> belongs to the library
  k8s.io/apimachinery and is not among the sources. Section 4.1: the condition is
  evaluated at once, with no initial delay; when it holds the poll succeeds; otherwise
  the poller sleeps \<open>interval\<close> and repeats until the cumulative elapsed time exceeds
  \<open>timeout\<close>, and then fails with "timed out", so that a timeout shorter than the
  interval still allows the immediate evaluation. \<open>elapsed\<close> is the time slept so far.
  An error returned by the condition function counts as "not yet": the poll goes on
  (section 4.1; the library function itself would end the poll with that error, which
  no condition function of this program returns, since each turns an error of the
  accessor into \<open>(false, nil)\<close>). The contract asks for
  \<open>interval > 0\<close>; outside it the model stops after the immediate evaluation.
\<close>

function pollFrom ::
  "Duration \<Rightarrow> Duration \<Rightarrow> Duration \<Rightarrow> ('c \<Rightarrow> (bool \<times> error option) \<times> 'c) \<Rightarrow> 'c
     \<Rightarrow> error option \<times> 'c" where
  "pollFrom interval timeout elapsed condition w =
     (case condition w of
        ((ok, err), w') \<Rightarrow>
          (if err = None \<and> ok then (None, w')
           else if interval \<le> 0 \<or> timeout < elapsed + interval then (Some ErrWaitTimeout, w')
           else pollFrom interval timeout (elapsed + interval) condition w'))"
  by pat_completeness auto
termination
  by (relation "measure (\<lambda>(interval, timeout, elapsed, condition, w). nat (timeout - elapsed))")
    auto

declare pollFrom.simps [simp del]

definition PollImmediate ::
  "Duration \<Rightarrow> Duration \<Rightarrow> ('c \<Rightarrow> (bool \<times> error option) \<times> 'c) \<Rightarrow> 'c \<Rightarrow> error option \<times> 'c" where
  "PollImmediate interval timeout condition w = pollFrom interval timeout 0 condition w"

section \<open>Verification (package verify)\<close>

text \<open>
  \<open>Status\<close> is a string in the source. A probe returns a result whose \<open>Duration\<close> and
  \<open>Timestamp\<close> are still the zero values; \<open>RunAll\<close> fills them in.
\<close>

record TestResult =
  Name :: string
  Status :: string
  Message :: string
  Duration :: string
  Timestamp :: int

record Summary =
  Total :: nat
  Passed :: nat
  Failed :: nat

record VerificationResults =
  ResultsTests :: "TestResult list"
  ResultsSummary :: Summary
  ResultsTimestamp :: int

definition newTestResult :: "string \<Rightarrow> string \<Rightarrow> string \<Rightarrow> TestResult" where
  "newTestResult name status message =
     \<lparr> Name = name, Status = status, Message = message, Duration = [], Timestamp = 0 \<rparr>"

text \<open>\<open>%d\<close>: an integer in decimal.\<close>

fun showNat :: "nat \<Rightarrow> string" where
  "showNat n = (if n < 10 then [char_of (48 + n)]
                else showNat (n div 10) @ [char_of (48 + n mod 10)])"

declare showNat.simps [simp del]

definition showInt :: "int \<Rightarrow> string" where
  "showInt i = (if i < 0 then CHR ''-'' # showNat (nat (- i)) else showNat (nat i))"

text \<open>The condition function of the pod-selfheal probe (the closure of lines 159 to 165).\<close>

definition selfHealCondition ::
  "'c kube \<Rightarrow> string \<Rightarrow> 32 word \<Rightarrow> 'c \<Rightarrow> (bool \<times> error option) \<times> 'c" where
  "selfHealCondition k ns initialReplicas w =
     (case DeploymentsGet k ns ''demo'' w of
        (Inl err, w') \<Rightarrow> ((False, None), w')
      | (Inr deployment, w') \<Rightarrow>
          ((word_sle initialReplicas (ReadyReplicas deployment), None), w'))"

definition testPodSelfHeal :: "'c kube \<Rightarrow> Config \<Rightarrow> 'c \<Rightarrow> TestResult \<times> 'c" where
  "testPodSelfHeal k cfg w =
     (case DeploymentsGet k (Namespace (Demo cfg)) ''demo'' w of
        (Inl err, w1) \<Rightarrow>
          (newTestResult ''pod-selfheal'' ''SKIP'' (''Demo app not deployed: '' @ Error err), w1)
      | (Inr deployment, w1) \<Rightarrow>
          (let initialReplicas = ReadyReplicas deployment in
           case PodsList k (Namespace (Demo cfg)) ''app=demo'' w1 of
             (Inl err, w2) \<Rightarrow> (newTestResult ''pod-selfheal'' ''FAIL'' ''No demo pods found'', w2)
           | (Inr [], w2) \<Rightarrow> (newTestResult ''pod-selfheal'' ''FAIL'' ''No demo pods found'', w2)
           | (Inr (pod # others), w2) \<Rightarrow>
               (let podName = PodName pod in
                case PodsDelete k (Namespace (Demo cfg)) podName w2 of
                  (Some err, w3) \<Rightarrow>
                    (newTestResult ''pod-selfheal'' ''FAIL''
                       (''Failed to delete pod: '' @ Error err), w3)
                | (None, w3) \<Rightarrow>
                    (case PollImmediate (5 * Second) (60 * Second)
                            (selfHealCondition k (Namespace (Demo cfg)) initialReplicas) w3 of
                       (Some err, w4) \<Rightarrow>
                         (newTestResult ''pod-selfheal'' ''FAIL''
                            ''Pod was not replaced within timeout'', w4)
                     | (None, w4) \<Rightarrow>
                         (newTestResult ''pod-selfheal'' ''PASS''
                            (''Pod '' @ podName @ '' was replaced successfully''), w4)))))"

text \<open>\<open>int32(n)\<close> of a Go \<open>int\<close> keeps the low 32 bits.\<close>

definition int32 :: "go_int \<Rightarrow> 32 word" where
  "int32 n = ucast n"

definition testHPAScale :: "'c kube \<Rightarrow> Config \<Rightarrow> 'c \<Rightarrow> TestResult \<times> 'c" where
  "testHPAScale k cfg w =
     (case HPAGet k (Namespace (Demo cfg)) ''demo'' w of
        (Inl err, w1) \<Rightarrow>
          (newTestResult ''hpa-scale'' ''SKIP'' (''HPA not found: '' @ Error err), w1)
      | (Inr hpa, w1) \<Rightarrow>
          (case SpecMinReplicas hpa of
             None \<Rightarrow> (newTestResult ''hpa-scale'' ''FAIL'' ''HPA minReplicas mismatch'', w1)
           | Some minReplicas \<Rightarrow>
               if minReplicas \<noteq> int32 (MinReplicas (HPA (Demo cfg)))
               then (newTestResult ''hpa-scale'' ''FAIL'' ''HPA minReplicas mismatch'', w1)
               else if SpecMaxReplicas hpa \<noteq> int32 (MaxReplicas (HPA (Demo cfg)))
               then (newTestResult ''hpa-scale'' ''FAIL'' ''HPA maxReplicas mismatch'', w1)
               else
                 (let currentReplicas = CurrentReplicas hpa in
                  (newTestResult ''hpa-scale'' ''PASS''
                     (''HPA configured correctly (current replicas: ''
                        @ showInt (sint currentReplicas) @ '', min: ''
                        @ showInt (sint minReplicas) @ '', max: ''
                        @ showInt (sint (SpecMaxReplicas hpa)) @ '')''), w1))))"

definition testPod :: "Config \<Rightarrow> Pod" where
  "testPod cfg =
     \<lparr> PodName = ''test-privileged-pod'',
       PodNamespace = Namespace (Demo cfg),
       Containers = [\<lparr> ContainerName = ''test'', Image = ''nginx:latest'',
                       Privileged = Some True \<rparr>] \<rparr>"

definition testPolicyDeny :: "'c kube \<Rightarrow> Config \<Rightarrow> 'c \<Rightarrow> TestResult \<times> 'c" where
  "testPolicyDeny k cfg w =
     (case PodsCreate k (Namespace (Demo cfg)) (testPod cfg) w of
        (Inr created, w1) \<Rightarrow>
          (let (ignored, w2) = PodsDelete k (Namespace (Demo cfg)) (PodName (testPod cfg)) w1
           in (newTestResult ''policy-deny'' ''FAIL''
                 ''Privileged pod was not denied by policy'', w2))
      | (Inl err, w1) \<Rightarrow>
          (newTestResult ''policy-deny'' ''PASS''
             ''Privileged pod was correctly denied by policy'', w1))"

fun hasDefaultDeny :: "NetworkPolicyObject list \<Rightarrow> bool" where
  "hasDefaultDeny [] = False"
| "hasDefaultDeny (np # nps) =
     (if length (SpecIngress np) = 0 \<and> length (SpecEgress np) = 0 then True
      else hasDefaultDeny nps)"

definition testNetworkDeny :: "'c kube \<Rightarrow> Config \<Rightarrow> 'c \<Rightarrow> TestResult \<times> 'c" where
  "testNetworkDeny k cfg w =
     (case NetworkPoliciesList k (Namespace (Demo cfg)) w of
        (Inl err, w1) \<Rightarrow>
          (newTestResult ''network-deny'' ''SKIP''
             (''Cannot list network policies: '' @ Error err), w1)
      | (Inr items, w1) \<Rightarrow>
          if length items = 0
          then (newTestResult ''network-deny'' ''FAIL'' ''No network policies found'', w1)
          else if \<not> hasDefaultDeny items
          then (newTestResult ''network-deny'' ''WARN''
                  (''Found '' @ showNat (length items)
                     @ '' network policies but no default deny''), w1)
          else (newTestResult ''network-deny'' ''PASS''
                  (''Network policies configured ('' @ showNat (length items)
                     @ '' policies including default deny)''), w1))"

text \<open>The body of the loop over the configured tests: the \<open>switch\<close> on the test name.\<close>

definition runTest :: "'c kube \<Rightarrow> Config \<Rightarrow> string \<Rightarrow> 'c \<Rightarrow> TestResult \<times> 'c" where
  "runTest k cfg testName w =
     (if testName = ''pod-selfheal'' then testPodSelfHeal k cfg w
      else if testName = ''hpa-scale'' then testHPAScale k cfg w
      else if testName = ''policy-deny'' then testPolicyDeny k cfg w
      else if testName = ''network-deny'' then testNetworkDeny k cfg w
      else (newTestResult testName ''SKIP'' ''Unknown test'', w))"

fun runTests ::
  "'c kube \<Rightarrow> Config \<Rightarrow> string list \<Rightarrow> TestResult list \<Rightarrow> 'c \<Rightarrow> TestResult list \<times> 'c" where
  "runTests k cfg [] results w = (results, w)"
| "runTests k cfg (testName # rest) results w =
     (let start = Now k w;
          (result, w') = runTest k cfg testName w;
          result' = result\<lparr> Duration := DurationString k (Now k w' - start),
                            Timestamp := Now k w' \<rparr>
      in runTests k cfg rest (results @ [result']) w')"

fun countSummary :: "TestResult list \<Rightarrow> Summary \<Rightarrow> Summary" where
  "countSummary [] summary = summary"
| "countSummary (test # tests) summary =
     countSummary tests
       (if Status test = ''PASS'' then summary\<lparr> Passed := Passed summary + 1 \<rparr>
        else if Status test = ''FAIL'' then summary\<lparr> Failed := Failed summary + 1 \<rparr>
        else summary)"

definition RunAll ::
  "'c kube \<Rightarrow> Config \<Rightarrow> 'c \<Rightarrow> (VerificationResults \<times> error option) \<times> 'c" where
  "RunAll k cfg w =
     (let timestamp = Now k w;
          (tests, w') = runTests k cfg (Tests (Verify cfg)) [] w;
          summary = countSummary tests \<lparr> Total = length tests, Passed = 0, Failed = 0 \<rparr>
      in ((\<lparr> ResultsTests = tests, ResultsSummary = summary,
              ResultsTimestamp = timestamp \<rparr>, None), w'))"

definition AllPassed :: "VerificationResults \<Rightarrow> bool" where
  "AllPassed r = (Failed (ResultsSummary r) = 0)"

section \<open>Installation (packages install and render)\<close>

text \<open>
  The installer acts on the cluster, on the local file system and on standard output.
  The file system is, like the cluster, a state of an arbitrary type \<open>'f\<close> with the
  operations of package \<open>os\<close> on it; \<open>filepath.Join\<close>, the JSON decoder of
  \<open>unstructured.Unstructured\<close> and the text layer of the YAML library, which writes a
  document as bytes (\<open>yamlEmit\<close>) and reads bytes as a document (\<open>yamlParse\<close>), are
  library functions and parameters as well.
\<close>

record ('c, 'f) world =
  cluster :: 'c
  files :: 'f
  stdout :: "string list"

record DirEntry =
  EntryName :: string
  IsDir :: bool

record 'f host =
  ReadDir :: "string \<Rightarrow> 'f \<Rightarrow> error + DirEntry list"
  ReadFile :: "string \<Rightarrow> 'f \<Rightarrow> error + string"
  WriteFile :: "string \<Rightarrow> string \<Rightarrow> 'f \<Rightarrow> error option \<times> 'f"
  MkdirAll :: "string \<Rightarrow> 'f \<Rightarrow> error option \<times> 'f"
  Join :: "string \<Rightarrow> string \<Rightarrow> string"
  UnmarshalJSON :: "string \<Rightarrow> error + Unstructured"
  yamlEmit :: "yamlNode \<Rightarrow> error + string"
  yamlParse :: "string \<Rightarrow> error + yamlNode"

type_synonym ('c, 'f) action = "('c, 'f) world \<Rightarrow> error option \<times> ('c, 'f) world"

text \<open>
  Go's sequencing of fallible statements: \<open>andThen f g\<close> runs \<open>g\<close> only when \<open>f\<close>
  returned no error (\<open>if err := f(); err != nil { return err }\<close>), \<open>wrapError\<close> is
  \<open>return fmt.Errorf("<prefix>%w", err)\<close>, \<open>whenEnabled\<close> is an \<open>if\<close> block without
  \<open>else\<close>.
\<close>

definition succeed :: "('c, 'f) action" where
  "succeed s = (None, s)"

definition andThen :: "('c, 'f) action \<Rightarrow> ('c, 'f) action \<Rightarrow> ('c, 'f) action" where
  "andThen f g s = (case f s of (Some err, s') \<Rightarrow> (Some err, s') | (None, s') \<Rightarrow> g s')"

definition wrapError :: "string \<Rightarrow> ('c, 'f) action \<Rightarrow> ('c, 'f) action" where
  "wrapError prefix f s =
     (case f s of (Some err, s') \<Rightarrow> (Some (Wrapped prefix err), s') | (None, s') \<Rightarrow> (None, s'))"

definition whenEnabled :: "bool \<Rightarrow> ('c, 'f) action \<Rightarrow> ('c, 'f) action" where
  "whenEnabled b f = (if b then f else succeed)"

definition onCluster :: "('c \<Rightarrow> error option \<times> 'c) \<Rightarrow> ('c, 'f) action" where
  "onCluster f s = (case f (cluster s) of (err, c') \<Rightarrow> (err, s\<lparr> cluster := c' \<rparr>))"

definition onFiles :: "('f \<Rightarrow> error option \<times> 'f) \<Rightarrow> ('c, 'f) action" where
  "onFiles f s = (case f (files s) of (err, fs') \<Rightarrow> (err, s\<lparr> files := fs' \<rparr>))"

definition printOut :: "string \<Rightarrow> ('c, 'f) action" where
  "printOut txt s = (None, s\<lparr> stdout := stdout s @ [txt] \<rparr>)"

definition println :: "string \<Rightarrow> ('c, 'f) action" where
  "println line = printOut (line @ ''\<newline>'')"

text \<open>The arrow and the check mark of the progress messages, in UTF-8.\<close>

definition arrow :: string where
  "arrow = [CHR 0xE2, CHR 0x86, CHR 0x92]"

definition checkMark :: string where
  "checkMark = [CHR 0xE2, CHR 0x9C, CHR 0x93]"

text \<open>
  \<open>filepath.Ext\<close>: the suffix that starts at the last dot of the last path element,
  found by scanning from the end.
\<close>

fun extFrom :: "string \<Rightarrow> string \<Rightarrow> string" where
  "extFrom [] seen = []"
| "extFrom (c # cs) seen =
     (if c = CHR ''/'' then []
      else if c = CHR ''.'' then c # seen
      else extFrom cs (c # seen))"

definition Ext :: "string \<Rightarrow> string" where
  "Ext path = extFrom (rev path) []"

definition isAlreadyExists :: "error option \<Rightarrow> bool" where
  "isAlreadyExists err = (case err of None \<Rightarrow> False | Some e \<Rightarrow> Error e = ''already exists'')"

definition isNotFound :: "error option \<Rightarrow> bool" where
  "isNotFound err = (case err of None \<Rightarrow> False | Some e \<Rightarrow> Error e = ''not found'')"

definition createNamespace :: "'c kube \<Rightarrow> string \<Rightarrow> 'c \<Rightarrow> error option \<times> 'c" where
  "createNamespace k name c =
     (case NamespacesCreate k name c of
        (err, c') \<Rightarrow> if err \<noteq> None \<and> \<not> isAlreadyExists err then (err, c') else (None, c'))"

definition applyManifest :: "'c kube \<Rightarrow> 'f host \<Rightarrow> string \<Rightarrow> ('c, 'f) action" where
  "applyManifest k h data s =
     (case UnmarshalJSON h data of
        Inl err \<Rightarrow> (Some err, s)
      | Inr obj \<Rightarrow>
          (let gvr = \<lparr> Group = ObjGroup obj, GVRVersion = ObjVersion obj,
                       Resource = ObjKind obj @ ''s'' \<rparr>
           in onCluster (DynamicApply k gvr (ObjNamespace obj) (ObjName obj) obj) s))"

fun applyEntries :: "'c kube \<Rightarrow> 'f host \<Rightarrow> string \<Rightarrow> DirEntry list \<Rightarrow> ('c, 'f) action" where
  "applyEntries k h path [] s = (None, s)"
| "applyEntries k h path (entry # entries) s =
     (if IsDir entry then applyEntries k h path entries s
      else if Ext (EntryName entry) \<noteq> ''.yaml'' \<and> Ext (EntryName entry) \<noteq> ''.yml''
      then applyEntries k h path entries s
      else
        (let manifestPath = Join h path (EntryName entry) in
         case ReadFile h manifestPath (files s) of
           Inl err \<Rightarrow>
             (Some (Wrapped (''failed to read manifest '' @ manifestPath @ '': '') err), s)
         | Inr data \<Rightarrow>
             (case applyManifest k h data s of
                (Some err, s') \<Rightarrow>
                  (Some (Wrapped (''failed to apply manifest '' @ manifestPath @ '': '') err), s')
              | (None, s') \<Rightarrow> applyEntries k h path entries s')))"

definition applyManifests :: "'c kube \<Rightarrow> 'f host \<Rightarrow> string \<Rightarrow> ('c, 'f) action" where
  "applyManifests k h path s =
     (case ReadDir h path (files s) of
        Inl err \<Rightarrow> (Some (Wrapped ''failed to read manifests directory: '' err), s)
      | Inr entries \<Rightarrow> applyEntries k h path entries s)"

text \<open>The condition function of \<open>waitForDeployment\<close> (the closure of lines 249 to 256).\<close>

definition deploymentReady ::
  "'c kube \<Rightarrow> string \<Rightarrow> string \<Rightarrow> 'c \<Rightarrow> (bool \<times> error option) \<times> 'c" where
  "deploymentReady k namespace name w =
     (case DeploymentsGet k namespace name w of
        (Inl err, w') \<Rightarrow> ((False, None), w')
      | (Inr deployment, w') \<Rightarrow>
          ((ReadyReplicas deployment = SpecReplicas deployment, None), w'))"

definition waitForDeployment ::
  "'c kube \<Rightarrow> string \<Rightarrow> string \<Rightarrow> Duration \<Rightarrow> 'c \<Rightarrow> error option \<times> 'c" where
  "waitForDeployment k namespace name timeout w =
     PollImmediate (5 * Second) timeout (deploymentReady k namespace name) w"

definition installDirect :: "'c kube \<Rightarrow> 'f host \<Rightarrow> Config \<Rightarrow> ('c, 'f) action" where
  "installDirect k h cfg =
     andThen
       (whenEnabled (Enabled (MetricsServer (Platform cfg)))
         (andThen (println (''\<newline>'' @ arrow @ '' Installing metrics-server...''))
         (andThen (wrapError ''failed to install metrics-server: ''
                     (applyManifests k h ''bundles/platform/metrics-server''))
                  (println (''  '' @ checkMark @ '' metrics-server installed'')))))
    (andThen
       (whenEnabled (Enabled (KubeStateMetrics (Platform cfg)))
         (andThen (println (''\<newline>'' @ arrow @ '' Installing kube-state-metrics...''))
         (andThen (wrapError ''failed to install kube-state-metrics: ''
                     (applyManifests k h ''bundles/platform/kube-state-metrics''))
                  (println (''  '' @ checkMark @ '' kube-state-metrics installed'')))))
    (andThen
       (whenEnabled (PolicyEnabled (Policy cfg))
         (andThen (println (''\<newline>'' @ arrow @ '' Installing policy engine (Kyverno)...''))
         (andThen (wrapError ''failed to install kyverno: ''
                     (applyManifests k h ''bundles/policies/kyverno''))
         (andThen (println (''  '' @ checkMark @ '' Kyverno installed''))
         (andThen (println ''  Waiting for Kyverno to be ready...'')
         (andThen (wrapError ''kyverno not ready: ''
                     (onCluster (waitForDeployment k ''kyverno'' ''kyverno'' (120 * Second))))
         (andThen (println (''\<newline>'' @ arrow @ '' Applying baseline policies...''))
         (andThen (wrapError ''failed to apply policies: ''
                     (applyManifests k h ''bundles/policies/baseline''))
                  (println (''  '' @ checkMark @ '' Baseline policies applied''))))))))))
    (andThen
       (whenEnabled (NetworkPolicyEnabled (NetworkPolicy cfg))
         (andThen (println (''\<newline>'' @ arrow @ '' Installing network policies...''))
         (andThen (wrapError ''failed to install network policies: ''
                     (applyManifests k h ''bundles/netpol''))
                  (println (''  '' @ checkMark @ '' Network policies installed'')))))
       succeed)))"

subsection \<open>Rendering for GitOps (internal/render/renderer.go)\<close>

definition fluxComponents :: string where
  "fluxComponents =
     ''---\<newline>'' @
     ''apiVersion: v1\<newline>'' @
     ''kind: Namespace\<newline>'' @
     ''metadata:\<newline>'' @
     ''  name: flux-system\<newline>'' @
     ''---\<newline>'' @
     ''# Flux toolkit components\<newline>'' @
     ''# Install via: flux install --export > gotk-components.yaml\<newline>'' @
     ''# This is a placeholder - use '' @ [CHR 0x27] @ ''flux bootstrap'' @ [CHR 0x27]
        @ '' for production\<newline>''"

definition syncManifest :: "Config \<Rightarrow> string" where
  "syncManifest cfg =
     ''---\<newline>'' @
     ''apiVersion: source.toolkit.fluxcd.io/v1\<newline>'' @
     ''kind: GitRepository\<newline>'' @
     ''metadata:\<newline>'' @
     ''  name: flux-system\<newline>'' @
     ''  namespace: flux-system\<newline>'' @
     ''spec:\<newline>'' @
     ''  interval: 1m0s\<newline>'' @
     ''  ref:\<newline>'' @
     ''    branch: '' @ Branch (GitOps cfg) @ ''\<newline>'' @
     ''  url: '' @ RepoURL (GitOps cfg) @ ''\<newline>'' @
     ''---\<newline>'' @
     ''apiVersion: kustomize.toolkit.fluxcd.io/v1\<newline>'' @
     ''kind: Kustomization\<newline>'' @
     ''metadata:\<newline>'' @
     ''  name: flux-system\<newline>'' @
     ''  namespace: flux-system\<newline>'' @
     ''spec:\<newline>'' @
     ''  interval: 10m0s\<newline>'' @
     ''  path: '' @ Path (GitOps cfg) @ ''\<newline>'' @
     ''  prune: true\<newline>'' @
     ''  sourceRef:\<newline>'' @
     ''    kind: GitRepository\<newline>'' @
     ''    name: flux-system\<newline>''"

definition platformKust :: string where
  "platformKust =
     ''---\<newline>'' @
     ''apiVersion: kustomize.toolkit.fluxcd.io/v1\<newline>'' @
     ''kind: Kustomization\<newline>'' @
     ''metadata:\<newline>'' @
     ''  name: platform\<newline>'' @
     ''  namespace: flux-system\<newline>'' @
     ''spec:\<newline>'' @
     ''  interval: 10m0s\<newline>'' @
     ''  path: ./platform\<newline>'' @
     ''  prune: true\<newline>'' @
     ''  sourceRef:\<newline>'' @
     ''    kind: GitRepository\<newline>'' @
     ''    name: flux-system\<newline>''"

definition policiesKust :: string where
  "policiesKust =
     ''---\<newline>'' @
     ''apiVersion: kustomize.toolkit.fluxcd.io/v1\<newline>'' @
     ''kind: Kustomization\<newline>'' @
     ''metadata:\<newline>'' @
     ''  name: policies\<newline>'' @
     ''  namespace: flux-system\<newline>'' @
     ''spec:\<newline>'' @
     ''  interval: 10m0s\<newline>'' @
     ''  path: ./policies\<newline>'' @
     ''  prune: true\<newline>'' @
     ''  sourceRef:\<newline>'' @
     ''    kind: GitRepository\<newline>'' @
     ''    name: flux-system\<newline>'' @
     ''  dependsOn:\<newline>'' @
     ''    - name: platform\<newline>''"

definition renderFluxBootstrap :: "'f host \<Rightarrow> Config \<Rightarrow> string \<Rightarrow> ('c, 'f) action" where
  "renderFluxBootstrap h cfg destPath =
     (let fluxSystemPath = Join h destPath ''flux-system'' in
      andThen (onFiles (WriteFile h (Join h fluxSystemPath ''gotk-components.yaml'') fluxComponents))
     (andThen (onFiles (WriteFile h (Join h fluxSystemPath ''gotk-sync.yaml'') (syncManifest cfg)))
              succeed))"

definition renderKustomizations :: "'f host \<Rightarrow> Config \<Rightarrow> string \<Rightarrow> ('c, 'f) action" where
  "renderKustomizations h cfg destPath =
     andThen (onFiles (WriteFile h (Join h destPath ''platform-kustomization.yaml'') platformKust))
    (andThen (onFiles (WriteFile h (Join h destPath ''policies-kustomization.yaml'') policiesKust))
             succeed)"

definition RenderGitOpsManifests :: "'f host \<Rightarrow> Config \<Rightarrow> string \<Rightarrow> ('c, 'f) action" where
  "RenderGitOpsManifests h cfg destPath =
     andThen (renderFluxBootstrap h cfg destPath)
    (andThen (renderKustomizations h cfg destPath)
             succeed)"

subsection \<open>GitOps mode, install and uninstall\<close>

fun makeDirs :: "'f host \<Rightarrow> string list \<Rightarrow> ('c, 'f) action" where
  "makeDirs h [] s = (None, s)"
| "makeDirs h (dir # dirs) s =
     (case wrapError (''failed to create directory '' @ dir @ '': '') (onFiles (MkdirAll h dir)) s of
        (Some err, s') \<Rightarrow> (Some err, s')
      | (None, s') \<Rightarrow> makeDirs h dirs s')"

definition installGitOps :: "'c kube \<Rightarrow> 'f host \<Rightarrow> Config \<Rightarrow> ('c, 'f) action" where
  "installGitOps k h cfg =
     andThen (println (''\<newline>'' @ arrow @ '' Generating GitOps manifests...''))
       (let gitopsPath = (if Path (GitOps cfg) = [] then ''clusters/my-cluster''
                          else Path (GitOps cfg));
            dirs = [Join h gitopsPath ''flux-system'',
                    Join h gitopsPath ''platform'',
                    Join h gitopsPath ''policies'',
                    Join h gitopsPath ''netpol'',
                    Join h gitopsPath ''apps'']
        in andThen (makeDirs h dirs)
          (andThen (wrapError ''failed to render GitOps manifests: ''
                      (RenderGitOpsManifests h cfg gitopsPath))
          (andThen (printOut (''  '' @ checkMark @ '' GitOps manifests generated at ''
                               @ gitopsPath @ ''\<newline>''))
          (andThen (println ''\<newline>Next steps for GitOps mode:'')
          (andThen (println ''  1. Commit the generated manifests to your Git repository'')
          (andThen (println (''  2. Bootstrap Flux: flux bootstrap github --owner=<org> ''
                               @ ''--repository=<repo> --path='' @ gitopsPath))
          (andThen (println ''  3. Flux will automatically sync and apply the manifests'')
                   succeed)))))))"

definition Install :: "'c kube \<Rightarrow> 'f host \<Rightarrow> Config \<Rightarrow> ('c, 'f) action" where
  "Install k h cfg =
     andThen (println (''\<newline>'' @ arrow @ '' Creating kubac-system namespace...''))
    (andThen (onCluster (createNamespace k ''kubac-system''))
       (if Mode cfg = ''gitops'' then installGitOps k h cfg else installDirect k h cfg))"

fun deleteNamespaces :: "'c kube \<Rightarrow> string list \<Rightarrow> ('c, 'f) world \<Rightarrow> ('c, 'f) world" where
  "deleteNamespaces k [] s = s"
| "deleteNamespaces k (ns # rest) s =
     (let s1 = s\<lparr> stdout := stdout s @ [''  Deleting namespace '' @ ns @ ''...\<newline>''] \<rparr>;
          (err, c') = NamespacesDelete k ns (cluster s1);
          s2 = s1\<lparr> cluster := c' \<rparr>;
          s3 = (case err of
                  None \<Rightarrow> s2
                | Some e \<Rightarrow>
                    if \<not> isNotFound err
                    then s2\<lparr> stdout := stdout s2 @
                           [''  Warning: failed to delete namespace '' @ ns @ '': ''
                              @ Error e @ ''\<newline>''] \<rparr>
                    else s2)
      in deleteNamespaces k rest s3)"

definition uninstallNamespaces :: "Config \<Rightarrow> string list" where
  "uninstallNamespaces cfg =
     (if Namespace (Demo cfg) \<noteq> [] then [''kubac-system'', ''kyverno''] @ [Namespace (Demo cfg)]
      else [''kubac-system'', ''kyverno''])"

definition Uninstall :: "'c kube \<Rightarrow> Config \<Rightarrow> ('c, 'f) action" where
  "Uninstall k cfg s =
     (case println (''\<newline>'' @ arrow @ '' Removing kubac components...'') s of
        (ignored, s1) \<Rightarrow> (None, deleteNamespaces k (uninstallNamespaces cfg) s1))"

section \<open>Loading and writing the configuration\<close>





section \<open>Notions used in the statements\<close>

text \<open>
  The report of a run, and a configuration with another list of tests.
\<close>

definition report :: "'c kube \<Rightarrow> Config \<Rightarrow> 'c \<Rightarrow> VerificationResults" where
  "report k cfg w = fst (fst (RunAll k cfg w))"

definition withTests :: "Config \<Rightarrow> string list \<Rightarrow> Config" where
  "withTests cfg ts = cfg\<lparr> Verify := (Verify cfg)\<lparr> Tests := ts \<rparr> \<rparr>"

text \<open>
  The cluster after \<open>n\<close> successive reads of a deployment, and whether a read of the
  demo deployment reports at least \<open>baseline\<close> ready replicas.
\<close>

definition afterGets :: "'c kube \<Rightarrow> string \<Rightarrow> string \<Rightarrow> nat \<Rightarrow> 'c \<Rightarrow> 'c" where
  "afterGets k namespace name n w = ((\<lambda>c. snd (DeploymentsGet k namespace name c)) ^^ n) w"

definition reportsRecovery :: "'c kube \<Rightarrow> string \<Rightarrow> 32 word \<Rightarrow> 'c \<Rightarrow> bool" where
  "reportsRecovery k namespace baseline w =
     (case fst (DeploymentsGet k namespace ''demo'' w) of
        Inl err \<Rightarrow> False
      | Inr deployment \<Rightarrow> word_sle baseline (ReadyReplicas deployment))"

text \<open>
  What \<open>Uninstall\<close> prints after its heading, read off the answers of the cluster: for
  every namespace the line that announces the deletion, and a warning when the
  deletion answers with an error whose message is not "not found".
\<close>

fun uninstallOutput :: "'c kube \<Rightarrow> string list \<Rightarrow> 'c \<Rightarrow> string list" where
  "uninstallOutput k [] c = []"
| "uninstallOutput k (ns # rest) c =
     [''  Deleting namespace '' @ ns @ ''...\<newline>''] @
     (case fst (NamespacesDelete k ns c) of
        None \<Rightarrow> []
      | Some e \<Rightarrow>
          if Error e = ''not found'' then []
          else [''  Warning: failed to delete namespace '' @ ns @ '': '' @ Error e @ ''\<newline>'']) @
     uninstallOutput k rest (snd (NamespacesDelete k ns c))"

subsection \<open>The install sequence as a list of steps\<close>

text \<open>
  The view of section 4.3 of the specification, to be compared with \<open>installDirect\<close>: an
  install step has a name (the prefix that wraps its error), an action, and is enabled
  or not by the configuration; the sequencer runs the enabled steps in order and stops
  at the first error, which it returns wrapped with the name of the step.
  \<open>directSteps\<close> lists the steps of direct mode; the readiness check of the policy
  engine is a step of its own.
\<close>

record ('c, 'f) InstallStep =
  stepName :: string
  stepEnabled :: bool
  stepAction :: "('c, 'f) action"

fun runSteps :: "('c, 'f) InstallStep list \<Rightarrow> ('c, 'f) action" where
  "runSteps [] s = (None, s)"
| "runSteps (step # steps) s =
     (if \<not> stepEnabled step then runSteps steps s
      else case stepAction step s of
             (Some err, s') \<Rightarrow> (Some (Wrapped (stepName step) err), s')
           | (None, s') \<Rightarrow> runSteps steps s')"

definition directSteps :: "'c kube \<Rightarrow> 'f host \<Rightarrow> Config \<Rightarrow> ('c, 'f) InstallStep list" where
  "directSteps k h cfg =
     [\<lparr> stepName = ''failed to install metrics-server: '',
        stepEnabled = Enabled (MetricsServer (Platform cfg)),
        stepAction =
          andThen (println (''\<newline>'' @ arrow @ '' Installing metrics-server...''))
         (andThen (applyManifests k h ''bundles/platform/metrics-server'')
                  (println (''  '' @ checkMark @ '' metrics-server installed''))) \<rparr>,
      \<lparr> stepName = ''failed to install kube-state-metrics: '',
        stepEnabled = Enabled (KubeStateMetrics (Platform cfg)),
        stepAction =
          andThen (println (''\<newline>'' @ arrow @ '' Installing kube-state-metrics...''))
         (andThen (applyManifests k h ''bundles/platform/kube-state-metrics'')
                  (println (''  '' @ checkMark @ '' kube-state-metrics installed''))) \<rparr>,
      \<lparr> stepName = ''failed to install kyverno: '',
        stepEnabled = PolicyEnabled (Policy cfg),
        stepAction =
          andThen (println (''\<newline>'' @ arrow @ '' Installing policy engine (Kyverno)...''))
         (andThen (applyManifests k h ''bundles/policies/kyverno'')
                  (println (''  '' @ checkMark @ '' Kyverno installed''))) \<rparr>,
      \<lparr> stepName = ''kyverno not ready: '',
        stepEnabled = PolicyEnabled (Policy cfg),
        stepAction =
          andThen (println ''  Waiting for Kyverno to be ready...'')
                  (onCluster (waitForDeployment k ''kyverno'' ''kyverno'' (120 * Second))) \<rparr>,
      \<lparr> stepName = ''failed to apply policies: '',
        stepEnabled = PolicyEnabled (Policy cfg),
        stepAction =
          andThen (println (''\<newline>'' @ arrow @ '' Applying baseline policies...''))
         (andThen (applyManifests k h ''bundles/policies/baseline'')
                  (println (''  '' @ checkMark @ '' Baseline policies applied''))) \<rparr>,
      \<lparr> stepName = ''failed to install network policies: '',
        stepEnabled = NetworkPolicyEnabled (NetworkPolicy cfg),
        stepAction =
          andThen (println (''\<newline>'' @ arrow @ '' Installing network policies...''))
         (andThen (applyManifests k h ''bundles/netpol'')
                  (println (''  '' @ checkMark @ '' Network policies installed''))) \<rparr>]"

subsection \<open>A scripted cluster for concrete runs\<close>

text \<open>
  A cluster whose state counts the reads of deployments made so far and that answers
  the \<open>c\<close>-th read with the \<open>c\<close>-th entry of a script, and with a refused connection
  once the script is exhausted.
\<close>

definition answerAt :: "(error + Deployment) list \<Rightarrow> nat \<Rightarrow> error + Deployment" where
  "answerAt script c =
     (case drop c script of
        [] \<Rightarrow> Inl (ErrorString ''connection refused'')
      | answer # later \<Rightarrow> answer)"

definition scriptedKube :: "(error + Deployment) list \<Rightarrow> nat kube" where
  "scriptedKube script =
     \<lparr> Now = (\<lambda>c. int c),
       DurationString = showInt,
       DeploymentsGet = (\<lambda>namespace name c. (answerAt script c, Suc c)),
       PodsList = (\<lambda>namespace selector c.
          (Inr [\<lparr> PodName = ''demo-6c7d9'', PodNamespace = namespace, Containers = [] \<rparr>], c)),
       PodsDelete = (\<lambda>namespace name c. (None, c)),
       PodsCreate = (\<lambda>namespace pod c. (Inl (ErrorString ''connection refused''), c)),
       HPAGet = (\<lambda>namespace name c. (Inl (ErrorString ''connection refused''), c)),
       NetworkPoliciesList = (\<lambda>namespace c. (Inl (ErrorString ''connection refused''), c)),
       NamespacesCreate = (\<lambda>name c. (None, c)),
       NamespacesDelete = (\<lambda>name c. (None, c)),
       DynamicApply = (\<lambda>gvr namespace name obj c. (None, c)) \<rparr>"

definition ready :: "nat \<Rightarrow> nat \<Rightarrow> error + Deployment" where
  "ready wanted observed = Inr \<lparr> SpecReplicas = of_nat wanted, ReadyReplicas = of_nat observed \<rparr>"

definition refused :: "error + Deployment" where
  "refused = Inl (ErrorString ''connection refused'')"

subsection \<open>Further clusters and a host for concrete runs\<close>

text \<open>
  \<open>namespaceKube answer\<close> counts the calls made to it, answers the creation and the
  deletion of a namespace with \<open>answer\<close> and refuses every other call.
  \<open>loggingKube rejected\<close> records the names of the objects applied and of the namespaces
  created, and rejects the object named \<open>rejected\<close>. \<open>memoryHost\<close> keeps files as pairs
  of path and content; every directory it lists holds a subdirectory, a readme and one
  manifest, a manifest decodes to an object named by its content, and its YAML text
  layer knows one document, that of the default configuration for the profile local
  and the mode direct.
\<close>

definition alreadyExistsError :: error where
  "alreadyExistsError =
     StatusError AlreadyExists
       (''namespaces '' @ [CHR 0x22] @ ''kubac-system'' @ [CHR 0x22] @ '' already exists'')"

definition forbiddenError :: error where
  "forbiddenError = StatusError Forbidden ''namespaces is forbidden''"

definition namespaceKube :: "error option \<Rightarrow> nat kube" where
  "namespaceKube answer =
     \<lparr> Now = (\<lambda>c. int c),
       DurationString = showInt,
       DeploymentsGet = (\<lambda>namespace name c. (Inl (ErrorString ''connection refused''), Suc c)),
       PodsList = (\<lambda>namespace selector c. (Inl (ErrorString ''connection refused''), Suc c)),
       PodsDelete = (\<lambda>namespace name c. (Some (ErrorString ''connection refused''), Suc c)),
       PodsCreate = (\<lambda>namespace pod c. (Inl (ErrorString ''connection refused''), Suc c)),
       HPAGet = (\<lambda>namespace name c. (Inl (ErrorString ''connection refused''), Suc c)),
       NetworkPoliciesList = (\<lambda>namespace c. (Inl (ErrorString ''connection refused''), Suc c)),
       NamespacesCreate = (\<lambda>name c. (answer, Suc c)),
       NamespacesDelete = (\<lambda>name c. (answer, Suc c)),
       DynamicApply = (\<lambda>gvr namespace name obj c.
          (Some (ErrorString ''connection refused''), Suc c)) \<rparr>"

definition memoryHost :: "(string \<times> string) list host" where
  "memoryHost =
     \<lparr> ReadDir = (\<lambda>path fs.
          Inr [\<lparr> EntryName = ''charts'', IsDir = True \<rparr>,
               \<lparr> EntryName = ''README.md'', IsDir = False \<rparr>,
               \<lparr> EntryName = ''install.yaml'', IsDir = False \<rparr>]),
       ReadFile = (\<lambda>path fs.
          case map_of fs path of
            None \<Rightarrow> Inl (ErrorString ''no such file or directory'')
          | Some data \<Rightarrow> Inr data),
       WriteFile = (\<lambda>path data fs. (None, (path, data) # fs)),
       MkdirAll = (\<lambda>dir fs. (None, fs)),
       Join = (\<lambda>dir name. dir @ ''/'' @ name),
       UnmarshalJSON = (\<lambda>data.
          Inr \<lparr> ObjGroup = ''apps'', ObjVersion = ''v1'', ObjKind = ''Deployment'',
                ObjNamespace = ''kube-system'', ObjName = data \<rparr>),
       yamlEmit = (\<lambda>document.
          if document = encodeConfig (DefaultConfig ''local'' ''direct'')
          then Inr ''# kubac defaults: local, direct\<newline>''
          else Inl (ErrorString ''yaml: unsupported document'')),
       yamlParse = (\<lambda>data.
          if data = ''# kubac defaults: local, direct\<newline>''
          then Inr (encodeConfig (DefaultConfig ''local'' ''direct''))
          else Inl (ErrorString ''yaml: did not find expected key'')) \<rparr>"

definition emptyWorld :: "'c \<Rightarrow> ('c, (string \<times> string) list) world" where
  "emptyWorld c = \<lparr> cluster = c, files = [], stdout = [] \<rparr>"

definition loggingKube :: "string \<Rightarrow> string list kube" where
  "loggingKube rejected =
     \<lparr> Now = (\<lambda>c. int (length c)),
       DurationString = showInt,
       DeploymentsGet = (\<lambda>namespace name c.
          (Inr \<lparr> SpecReplicas = 1, ReadyReplicas = 1 \<rparr>, c)),
       PodsList = (\<lambda>namespace selector c. (Inr [], c)),
       PodsDelete = (\<lambda>namespace name c. (None, c)),
       PodsCreate = (\<lambda>namespace pod c. (Inr pod, c)),
       HPAGet = (\<lambda>namespace name c. (Inl (StatusError NotFound ''not found''), c)),
       NetworkPoliciesList = (\<lambda>namespace c. (Inr [], c)),
       NamespacesCreate = (\<lambda>name c. (None, c @ [name])),
       NamespacesDelete = (\<lambda>name c. (None, c)),
       DynamicApply = (\<lambda>gvr namespace name obj c.
          if name = rejected then (Some (ErrorString ''the server rejected the request''), c)
          else (None, c @ [name])) \<rparr>"

definition bundleFiles :: "(string \<times> string) list" where
  "bundleFiles =
     [(''bundles/platform/metrics-server/install.yaml'', ''metrics-server''),
      (''bundles/platform/kube-state-metrics/install.yaml'', ''kube-state-metrics''),
      (''bundles/policies/kyverno/install.yaml'', ''kyverno''),
      (''bundles/policies/baseline/install.yaml'', ''baseline-policies''),
      (''bundles/netpol/install.yaml'', ''default-deny'')]"

section \<open>Properties of the verifier\<close>

lemma countSummary_counts:
  "countSummary ts s =
     s\<lparr> Passed := Passed s + length (filter (\<lambda>t. Status t = ''PASS'') ts),
        Failed := Failed s + length (filter (\<lambda>t. Status t = ''FAIL'') ts) \<rparr>"
  by (induction ts arbitrary: s) auto

lemma testPodSelfHeal_name: "Name (fst (testPodSelfHeal k cfg w)) = ''pod-selfheal''"
  by (simp add: testPodSelfHeal_def newTestResult_def Let_def
      split: prod.splits sum.splits list.splits option.splits)

lemma testHPAScale_name: "Name (fst (testHPAScale k cfg w)) = ''hpa-scale''"
  by (simp add: testHPAScale_def newTestResult_def Let_def
      split: prod.splits sum.splits option.splits)

lemma testPolicyDeny_name: "Name (fst (testPolicyDeny k cfg w)) = ''policy-deny''"
  by (simp add: testPolicyDeny_def newTestResult_def Let_def
      split: prod.splits sum.splits)

lemma testNetworkDeny_name: "Name (fst (testNetworkDeny k cfg w)) = ''network-deny''"
  by (simp add: testNetworkDeny_def newTestResult_def
      split: prod.splits sum.splits)

lemma runTest_name: "Name (fst (runTest k cfg testName w)) = testName"
  by (simp add: runTest_def testPodSelfHeal_name testHPAScale_name testPolicyDeny_name
      testNetworkDeny_name newTestResult_def)

lemma runTests_names:
  "map Name (fst (runTests k cfg ts results w)) = map Name results @ ts"
proof (induction ts arbitrary: results w)
  case Nil
  show ?case by simp
next
  case (Cons t ts)
  obtain r w' where rw: "runTest k cfg t w = (r, w')" by (cases "runTest k cfg t w")
  have "Name r = t" using runTest_name [of k cfg t w] rw by simp
  then show ?case using Cons.IH rw by (simp add: Let_def)
qed






lemma report_tests:
  "ResultsTests (report k cfg w) = fst (runTests k cfg (Tests (Verify cfg)) [] w)"
  by (simp add: report_def RunAll_def Let_def split: prod.splits)

lemma report_summary:
  "ResultsSummary (report k cfg w) =
     countSummary (ResultsTests (report k cfg w))
       \<lparr> Total = length (ResultsTests (report k cfg w)), Passed = 0, Failed = 0 \<rparr>"
  by (simp add: report_def RunAll_def Let_def split: prod.splits)

lemma report_names: "map Name (ResultsTests (report k cfg w)) = Tests (Verify cfg)"
  using runTests_names [of k cfg "Tests (Verify cfg)" "[]" w] by (simp add: report_tests)

lemma report_length: "length (ResultsTests (report k cfg w)) = length (Tests (Verify cfg))"
  using report_names [of k cfg w] by (metis length_map)




text \<open>
  C1. Whatever the cluster answers and whatever tests are configured, the summary of
  the report counts the results: \<open>total\<close> is the number of configured tests (and of
  results), \<open>failed\<close> the number of results with status FAIL, \<open>passed\<close> the number with
  status PASS, so that WARN and SKIP count toward the total only; \<open>AllPassed\<close> holds
  exactly when \<open>failed\<close> is 0; and with no test configured the total is 0 and
  \<open>AllPassed\<close> holds.
\<close>

theorem RunAll_summary_invariant:
  "Total (ResultsSummary (report k cfg w)) = length (Tests (Verify cfg))
   \<and> Total (ResultsSummary (report k cfg w)) = length (ResultsTests (report k cfg w))
   \<and> Failed (ResultsSummary (report k cfg w))
       = length (filter (\<lambda>t. Status t = ''FAIL'') (ResultsTests (report k cfg w)))
   \<and> Passed (ResultsSummary (report k cfg w))
       = length (filter (\<lambda>t. Status t = ''PASS'') (ResultsTests (report k cfg w)))
   \<and> AllPassed (report k cfg w) = (Failed (ResultsSummary (report k cfg w)) = 0)
   \<and> Total (ResultsSummary (report k (withTests cfg []) w)) = 0
   \<and> AllPassed (report k (withTests cfg []) w)"
proof -
  have empty: "ResultsTests (report k (withTests cfg []) w) = []"
    by (simp add: report_tests withTests_def)
  show ?thesis
    by (simp add: report_summary [of k cfg w] report_summary [of k "withTests cfg []" w]
        countSummary_counts report_length AllPassed_def empty)
qed


section \<open>Properties of the poller and of the pod-selfheal probe\<close>

lemma pollFrom_done:
  "condition w = ((True, None), w') \<Longrightarrow> pollFrom interval timeout elapsed condition w = (None, w')"
  by (subst pollFrom.simps) simp

lemma pollFrom_retry:
  "condition w = ((False, None), w') \<Longrightarrow> 0 < interval \<Longrightarrow> elapsed + interval \<le> timeout \<Longrightarrow>
     pollFrom interval timeout elapsed condition w
       = pollFrom interval timeout (elapsed + interval) condition w'"
  by (subst pollFrom.simps) simp

lemma pollFrom_timeout:
  "condition w = ((False, None), w') \<Longrightarrow> interval \<le> 0 \<or> timeout < elapsed + interval \<Longrightarrow>
     pollFrom interval timeout elapsed condition w = (Some ErrWaitTimeout, w')"
  by (subst pollFrom.simps) simp


lemma pollFrom_verdict:
  assumes total: "\<forall>c. snd (fst (condition c)) = None"
  shows "0 < interval \<Longrightarrow> elapsed \<le> timeout \<Longrightarrow>
         fst (pollFrom interval timeout elapsed condition w) =
           (if \<exists>n. elapsed + int n * interval \<le> timeout
                    \<and> fst (fst (condition (((\<lambda>c. snd (condition c)) ^^ n) w)))
            then None else Some ErrWaitTimeout)"
proof -
  define step where "step = (\<lambda>c. snd (condition c))"
  define okAt where "okAt = (\<lambda>n w. fst (fst (condition ((step ^^ n) w))))"
  have okAt_Suc: "okAt (Suc n) w = okAt n (step w)" for n w
    unfolding okAt_def by (simp only: funpow_Suc_right o_apply)
  have "0 < interval \<Longrightarrow> elapsed \<le> timeout \<Longrightarrow>
         fst (pollFrom interval timeout elapsed condition w) =
           (if \<exists>n. elapsed + int n * interval \<le> timeout \<and> okAt n w
            then None else Some ErrWaitTimeout)"
    using total step_def okAt_def okAt_Suc
  proof (induction interval timeout elapsed condition w rule: pollFrom.induct)
    case (1 interval timeout elapsed condition w)
    have pos: "0 < interval" and le: "elapsed \<le> timeout" using "1.prems" by simp_all
    have tot: "\<forall>c. snd (fst (condition c)) = None" using "1.prems" by simp
    have step: "step = (\<lambda>c. snd (condition c))" using "1.prems" by simp
    have okAt: "okAt = (\<lambda>n w. fst (fst (condition ((step ^^ n) w))))" using "1.prems" by simp
    have okS: "\<And>n w. okAt (Suc n) w = okAt n (step w)" using "1.prems" by simp
    obtain p w' where pw: "condition w = (p, w')" by (cases "condition w")
    obtain ok e where p: "p = (ok, e)" by (cases p)
    have "e = None" using tot pw p by (metis fst_conv snd_conv)
    then have c: "condition w = ((ok, None), w')" using pw p by simp
    have w': "w' = step w" using c step by simp
    have ok0: "okAt 0 w = ok" using c okAt by simp
    show ?case
    proof (cases ok)
      case True
      have "elapsed + int 0 * interval \<le> timeout \<and> okAt 0 w" using le ok0 True by simp
      then have "\<exists>n. elapsed + int n * interval \<le> timeout \<and> okAt n w" by blast
      then show ?thesis using pollFrom_done [of condition w w'] c True by simp
    next
      case False
      show ?thesis
      proof (cases "timeout < elapsed + interval")
        case True
        have "\<not> (\<exists>n. elapsed + int n * interval \<le> timeout \<and> okAt n w)"
        proof
          assume "\<exists>n. elapsed + int n * interval \<le> timeout \<and> okAt n w"
          then obtain n where n: "elapsed + int n * interval \<le> timeout" "okAt n w" by blast
          have "n \<noteq> 0" using n(2) ok0 False by (cases n) auto
          then have "interval \<le> int n * interval"
            using pos by (cases n) (simp_all add: algebra_simps)
          then show False using n(1) True by simp
        qed
        then show ?thesis using pollFrom_timeout [of condition w w'] c False True by simp
      next
        case notyet: False
        then have budget: "elapsed + interval \<le> timeout" by simp
        have IH: "fst (pollFrom interval timeout (elapsed + interval) condition w') =
             (if \<exists>n. elapsed + interval + int n * interval \<le> timeout \<and> okAt n w'
              then None else Some ErrWaitTimeout)"
          using "1.IH" [of "(ok, None)" w' ok None] c False notyet pos budget tot step okAt okS
          by simp
        have shift: "(\<exists>n. elapsed + int n * interval \<le> timeout \<and> okAt n w)
                   = (\<exists>n. elapsed + interval + int n * interval \<le> timeout \<and> okAt n w')"
        proof
          assume "\<exists>n. elapsed + int n * interval \<le> timeout \<and> okAt n w"
          then obtain n where n: "elapsed + int n * interval \<le> timeout" "okAt n w" by blast
          have "n \<noteq> 0" using n(2) ok0 False by (cases n) auto
          then obtain m where m: "n = Suc m" by (cases n) auto
          have "elapsed + interval + int m * interval \<le> timeout \<and> okAt m w'"
            using n m w' okS by (simp add: algebra_simps)
          then show "\<exists>n. elapsed + interval + int n * interval \<le> timeout \<and> okAt n w'"
            by blast
        next
          assume "\<exists>n. elapsed + interval + int n * interval \<le> timeout \<and> okAt n w'"
          then obtain m where m: "elapsed + interval + int m * interval \<le> timeout"
              "okAt m w'" by blast
          have "elapsed + int (Suc m) * interval \<le> timeout \<and> okAt (Suc m) w"
            using m w' okS by (simp add: algebra_simps)
          then show "\<exists>n. elapsed + int n * interval \<le> timeout \<and> okAt n w" by blast
        qed
        show ?thesis
          using pollFrom_retry [of condition w w' interval elapsed timeout] pos budget c False IH shift
          by simp
      qed
    qed
  qed
  then show "0 < interval \<Longrightarrow> elapsed \<le> timeout \<Longrightarrow>
         fst (pollFrom interval timeout elapsed condition w) =
           (if \<exists>n. elapsed + int n * interval \<le> timeout
                    \<and> fst (fst (condition (((\<lambda>c. snd (condition c)) ^^ n) w)))
            then None else Some ErrWaitTimeout)"
    unfolding okAt_def step_def .
qed


lemma deploymentReady_total: "snd (fst (deploymentReady k namespace name c)) = None"
  by (simp add: deploymentReady_def split: prod.splits sum.splits)


lemma selfHealCondition_total: "snd (fst (selfHealCondition k namespace baseline c)) = None"
  by (simp add: selfHealCondition_def split: prod.splits sum.splits)

lemma selfHealCondition_state:
  "snd (selfHealCondition k namespace baseline c) = snd (DeploymentsGet k namespace ''demo'' c)"
  by (simp add: selfHealCondition_def split: prod.splits sum.splits)

lemma selfHealCondition_verdict:
  "fst (fst (selfHealCondition k namespace baseline c)) = reportsRecovery k namespace baseline c"
  by (simp add: selfHealCondition_def reportsRecovery_def split: prod.splits sum.splits)



lemma Second_pos: "0 < 5 * Second"
  by (simp add: Second_def)


lemma afterGets_scripted: "afterGets (scriptedKube script) namespace name n c = c + n"
  by (induction n) (simp_all add: afterGets_def scriptedKube_def)


lemma DeploymentsGet_scripted:
  "DeploymentsGet (scriptedKube script) namespace name c = (answerAt script c, Suc c)"
  by (simp add: scriptedKube_def)


text \<open>
  C6. The pod-selfheal probe. When the demo deployment cannot be read the verdict is
  SKIP. When it is read with some number of ready replicas (the baseline), a pod is
  listed and its deletion succeeds, the verdict is PASS, with a message that names the
  deleted pod, if one of the reads made at 0, 5, ..., 60 seconds after the deletion
  reports at least the baseline, and FAIL with the message "Pod was not replaced
  within timeout" otherwise.
\<close>

theorem testPodSelfHeal_verdict:
  "(DeploymentsGet k (Namespace (Demo cfg)) ''demo'' w = (Inl err, afterGet)
      \<longrightarrow> Status (fst (testPodSelfHeal k cfg w)) = ''SKIP'')
   \<and> (DeploymentsGet k (Namespace (Demo cfg)) ''demo'' w = (Inr deployment, afterGet)
      \<and> PodsList k (Namespace (Demo cfg)) ''app=demo'' afterGet = (Inr (pod # pods), afterList)
      \<and> PodsDelete k (Namespace (Demo cfg)) (PodName pod) afterList = (None, afterDelete)
      \<longrightarrow> fst (testPodSelfHeal k cfg w) =
            (if \<exists>n. int n * (5 * Second) \<le> 60 * Second
                     \<and> reportsRecovery k (Namespace (Demo cfg)) (ReadyReplicas deployment)
                          (afterGets k (Namespace (Demo cfg)) ''demo'' n afterDelete)
             then newTestResult ''pod-selfheal'' ''PASS''
                    (''Pod '' @ PodName pod @ '' was replaced successfully'')
             else newTestResult ''pod-selfheal'' ''FAIL''
                    ''Pod was not replaced within timeout''))"
proof (intro conjI impI)
  assume "DeploymentsGet k (Namespace (Demo cfg)) ''demo'' w = (Inl err, afterGet)"
  then show "Status (fst (testPodSelfHeal k cfg w)) = ''SKIP''"
    by (simp add: testPodSelfHeal_def newTestResult_def)
next
  assume a: "DeploymentsGet k (Namespace (Demo cfg)) ''demo'' w = (Inr deployment, afterGet)
      \<and> PodsList k (Namespace (Demo cfg)) ''app=demo'' afterGet = (Inr (pod # pods), afterList)
      \<and> PodsDelete k (Namespace (Demo cfg)) (PodName pod) afterList = (None, afterDelete)"
  let ?ns = "Namespace (Demo cfg)"
  let ?cond = "selfHealCondition k ?ns (ReadyReplicas deployment)"
  have total: "\<forall>c. snd (fst (?cond c)) = None" by (simp add: selfHealCondition_total)
  have step: "(\<lambda>c. snd (?cond c)) = (\<lambda>c. snd (DeploymentsGet k ?ns ''demo'' c))"
    by (simp add: selfHealCondition_state)
  have window: "(0::int) \<le> 60 * Second" by (simp add: Second_def)
  define recovered where "recovered =
      (\<exists>n. int n * (5 * Second) \<le> 60 * Second
           \<and> reportsRecovery k ?ns (ReadyReplicas deployment) (afterGets k ?ns ''demo'' n afterDelete))"
  have "fst (pollFrom (5 * Second) (60 * Second) 0 ?cond afterDelete) =
      (if \<exists>n. 0 + int n * (5 * Second) \<le> 60 * Second
               \<and> fst (fst (?cond (((\<lambda>c. snd (?cond c)) ^^ n) afterDelete)))
       then None else Some ErrWaitTimeout)"
    by (rule pollFrom_verdict [OF total Second_pos window])
  then have poll: "fst (PollImmediate (5 * Second) (60 * Second) ?cond afterDelete) =
      (if recovered then None else Some ErrWaitTimeout)"
    unfolding PollImmediate_def recovered_def step selfHealCondition_verdict afterGets_def
    by simp
  have run: "testPodSelfHeal k cfg w =
      (case PollImmediate (5 * Second) (60 * Second) ?cond afterDelete of
         (Some err, w4) \<Rightarrow>
           (newTestResult ''pod-selfheal'' ''FAIL'' ''Pod was not replaced within timeout'', w4)
       | (None, w4) \<Rightarrow>
           (newTestResult ''pod-selfheal'' ''PASS''
              (''Pod '' @ PodName pod @ '' was replaced successfully''), w4))"
    using a by (simp add: testPodSelfHeal_def Let_def)
  have "fst (testPodSelfHeal k cfg w) =
            (if recovered
             then newTestResult ''pod-selfheal'' ''PASS''
                    (''Pod '' @ PodName pod @ '' was replaced successfully'')
             else newTestResult ''pod-selfheal'' ''FAIL''
                    ''Pod was not replaced within timeout'')"
  proof (cases "PollImmediate (5 * Second) (60 * Second) ?cond afterDelete")
    case (Pair r w4)
    show ?thesis
    proof (cases recovered)
      case True
      then have "r = None" using poll Pair by simp
      then show ?thesis using run Pair True by simp
    next
      case False
      then have "r = Some ErrWaitTimeout" using poll Pair by simp
      then show ?thesis using run Pair False by simp
    qed
  qed
  then show "fst (testPodSelfHeal k cfg w) =
            (if \<exists>n. int n * (5 * Second) \<le> 60 * Second
                     \<and> reportsRecovery k ?ns (ReadyReplicas deployment)
                          (afterGets k ?ns ''demo'' n afterDelete)
             then newTestResult ''pod-selfheal'' ''PASS''
                    (''Pod '' @ PodName pod @ '' was replaced successfully'')
             else newTestResult ''pod-selfheal'' ''FAIL''
                    ''Pod was not replaced within timeout'')"
    unfolding recovered_def .
qed


lemma PodsList_scripted:
  "PodsList (scriptedKube script) namespace selector c =
     (Inr [\<lparr> PodName = ''demo-6c7d9'', PodNamespace = namespace, Containers = [] \<rparr>], c)"
  by (simp add: scriptedKube_def)

lemma PodsDelete_scripted: "PodsDelete (scriptedKube script) namespace name c = (None, c)"
  by (simp add: scriptedKube_def)

lemma reportsRecovery_scripted:
  "reportsRecovery (scriptedKube script) namespace baseline c =
     (case answerAt script c of
        Inl err \<Rightarrow> False
      | Inr deployment \<Rightarrow> word_sle baseline (ReadyReplicas deployment))"
  by (simp add: reportsRecovery_def DeploymentsGet_scripted)

theorem testPodSelfHeal_verdict_witness:
  "fst (testPodSelfHeal
          (scriptedKube [ready 3 3, ready 3 2, refused, ready 3 2, ready 3 2, ready 3 3])
          (DefaultConfig ''local'' ''direct'') 0)
     = newTestResult ''pod-selfheal'' ''PASS'' ''Pod demo-6c7d9 was replaced successfully''
   \<and> fst (testPodSelfHeal (scriptedKube [ready 3 3, ready 3 2])
          (DefaultConfig ''local'' ''direct'') 0)
     = newTestResult ''pod-selfheal'' ''FAIL'' ''Pod was not replaced within timeout''
   \<and> Status (fst (testPodSelfHeal (scriptedKube []) (DefaultConfig ''local'' ''direct'') 0))
     = ''SKIP''"
proof -
  let ?cfg = "DefaultConfig ''local'' ''direct''"
  let ?ns = "Namespace (Demo ?cfg)"
  let ?pod = "\<lparr> PodName = ''demo-6c7d9'', PodNamespace = ?ns, Containers = [] \<rparr>"
  let ?d = "\<lparr> SpecReplicas = 3, ReadyReplicas = 3 \<rparr> :: Deployment"
  let ?heals = "scriptedKube [ready 3 3, ready 3 2, refused, ready 3 2, ready 3 2, ready 3 3]"
  let ?stuck = "scriptedKube [ready 3 3, ready 3 2]"
  have heals: "\<exists>n. int n * (5 * Second) \<le> 60 * Second
                 \<and> reportsRecovery ?heals ?ns (ReadyReplicas ?d) (afterGets ?heals ?ns ''demo'' n 1)"
    by (rule exI [of _ 4])
      (simp add: Second_def afterGets_scripted reportsRecovery_scripted answerAt_def ready_def)
  have stuck: "\<not> (\<exists>n. int n * (5 * Second) \<le> 60 * Second
                 \<and> reportsRecovery ?stuck ?ns (ReadyReplicas ?d) (afterGets ?stuck ?ns ''demo'' n 1))"
  proof
    assume "\<exists>n. int n * (5 * Second) \<le> 60 * Second
                 \<and> reportsRecovery ?stuck ?ns (ReadyReplicas ?d) (afterGets ?stuck ?ns ''demo'' n 1)"
    then obtain n where "reportsRecovery ?stuck ?ns (ReadyReplicas ?d) (Suc n)"
      by (auto simp add: afterGets_scripted)
    then show False
      by (cases n) (simp_all add: reportsRecovery_scripted answerAt_def ready_def word_sle_eq)
  qed
  have "fst (testPodSelfHeal ?heals ?cfg 0) =
      (if \<exists>n. int n * (5 * Second) \<le> 60 * Second
               \<and> reportsRecovery ?heals ?ns (ReadyReplicas ?d) (afterGets ?heals ?ns ''demo'' n 1)
       then newTestResult ''pod-selfheal'' ''PASS''
              (''Pod '' @ PodName ?pod @ '' was replaced successfully'')
       else newTestResult ''pod-selfheal'' ''FAIL'' ''Pod was not replaced within timeout'')"
  proof (rule mp [OF conjunct2 [OF testPodSelfHeal_verdict]])
    show "DeploymentsGet ?heals ?ns ''demo'' 0 = (Inr ?d, 1)
        \<and> PodsList ?heals ?ns ''app=demo'' 1 = (Inr [?pod], 1)
        \<and> PodsDelete ?heals ?ns (PodName ?pod) 1 = (None, 1)"
      by (simp add: DeploymentsGet_scripted PodsList_scripted PodsDelete_scripted answerAt_def
          ready_def)
  qed
  then have pass: "fst (testPodSelfHeal ?heals ?cfg 0)
      = newTestResult ''pod-selfheal'' ''PASS''
          (''Pod '' @ PodName ?pod @ '' was replaced successfully'')"
    by (simp only: heals if_True)
  have "fst (testPodSelfHeal ?stuck ?cfg 0) =
      (if \<exists>n. int n * (5 * Second) \<le> 60 * Second
               \<and> reportsRecovery ?stuck ?ns (ReadyReplicas ?d) (afterGets ?stuck ?ns ''demo'' n 1)
       then newTestResult ''pod-selfheal'' ''PASS''
              (''Pod '' @ PodName ?pod @ '' was replaced successfully'')
       else newTestResult ''pod-selfheal'' ''FAIL'' ''Pod was not replaced within timeout'')"
  proof (rule mp [OF conjunct2 [OF testPodSelfHeal_verdict]])
    show "DeploymentsGet ?stuck ?ns ''demo'' 0 = (Inr ?d, 1)
        \<and> PodsList ?stuck ?ns ''app=demo'' 1 = (Inr [?pod], 1)
        \<and> PodsDelete ?stuck ?ns (PodName ?pod) 1 = (None, 1)"
      by (simp add: DeploymentsGet_scripted PodsList_scripted PodsDelete_scripted answerAt_def
          ready_def)
  qed
  then have fail: "fst (testPodSelfHeal ?stuck ?cfg 0)
      = newTestResult ''pod-selfheal'' ''FAIL'' ''Pod was not replaced within timeout''"
    by (simp only: stuck if_False)
  have skip: "Status (fst (testPodSelfHeal (scriptedKube []) ?cfg 0)) = ''SKIP''"
  proof (rule mp [OF conjunct1 [OF testPodSelfHeal_verdict]])
    show "DeploymentsGet (scriptedKube []) ?ns ''demo'' 0
            = (Inl (ErrorString ''connection refused''), 1)"
      by (simp add: DeploymentsGet_scripted answerAt_def)
  qed
  show ?thesis using pass fail skip by simp
qed

section \<open>Errors of the accessor in the policy-deny probe\<close>

text \<open>
  C7. The specification asks that in a one-shot probe an error of the accessor surfaces as FAIL
  with the error message attached. The policy-deny probe takes every error of the
  creation of the privileged pod for a denial: when the creation fails because the
  connection is refused, the probe returns PASS with the message "Privileged pod was
  correctly denied by policy".
\<close>

theorem testPolicyDeny_passes_on_transient_error:
  "fst (testPolicyDeny (namespaceKube None) (DefaultConfig ''local'' ''direct'') 0) =
     newTestResult ''policy-deny'' ''PASS'' ''Privileged pod was correctly denied by policy''"
  by (simp add: testPolicyDeny_def namespaceKube_def)

section \<open>Properties of the installer\<close>

text \<open>
  C9. The specification asks that creating a namespace that already exists is not a
  failure.
  \<open>isAlreadyExists\<close> compares the whole message of the error with "already exists",
  and the message of the cluster's AlreadyExists error names the resource: with the
  answer \<open>namespaces "kubac-system" already exists\<close>, \<open>createNamespace\<close> returns the error,
  and the install fails with it.
\<close>

theorem createNamespace_propagates_AlreadyExists:
  "createNamespace (namespaceKube (Some alreadyExistsError)) ''kubac-system'' 0
     = (Some alreadyExistsError, 1)
   \<and> fst (Install (namespaceKube (Some alreadyExistsError)) memoryHost
            (DefaultConfig ''local'' ''direct'') (emptyWorld 0))
     = Some alreadyExistsError"
  by (simp add: createNamespace_def namespaceKube_def isAlreadyExists_def alreadyExistsError_def
      Install_def andThen_def println_def printOut_def onCluster_def emptyWorld_def)

lemma deleteNamespaces_stdout:
  "stdout (deleteNamespaces k nss s) = stdout s @ uninstallOutput k nss (cluster s)"
proof (induction nss arbitrary: s)
  case Nil
  show ?case by simp
next
  case (Cons ns rest)
  obtain err c' where del: "NamespacesDelete k ns (cluster s) = (err, c')"
    by (cases "NamespacesDelete k ns (cluster s)")
  show ?case
  proof (cases err)
    case None
    then show ?thesis using del Cons.IH by (simp add: Let_def)
  next
    case (Some e)
    then show ?thesis using del Cons.IH by (simp add: Let_def isNotFound_def)
  qed
qed

lemma deleteNamespaces_cluster:
  "cluster (deleteNamespaces k nss s) =
     foldl (\<lambda>c ns. snd (NamespacesDelete k ns c)) (cluster s) nss"
  by (induction nss arbitrary: s) (simp_all add: Let_def split: prod.splits option.splits)

lemma deleteNamespaces_files: "files (deleteNamespaces k nss s) = files s"
  by (induction nss arbitrary: s) (simp_all add: Let_def split: prod.splits option.splits)

text \<open>
  C10. \<open>Uninstall\<close> returns no error, whatever the deletions of the namespaces answer;
  every namespace of the list is deleted in turn, on the cluster as the deletions
  before it left it; a deletion that answers with an error other than "not found"
  adds a warning to the output and nothing else; the file system is not touched. In
  the concrete run below every deletion is forbidden: three warnings are printed and
  the result is nil.
\<close>

theorem Uninstall_returns_nil:
  "fst (Uninstall k cfg s) = None
   \<and> cluster (snd (Uninstall k cfg s))
       = foldl (\<lambda>c ns. snd (NamespacesDelete k ns c)) (cluster s) (uninstallNamespaces cfg)
   \<and> stdout (snd (Uninstall k cfg s))
       = stdout s @ [''\<newline>'' @ arrow @ '' Removing kubac components...\<newline>'']
           @ uninstallOutput k (uninstallNamespaces cfg) (cluster s)
   \<and> files (snd (Uninstall k cfg s)) = files s"
  by (simp add: Uninstall_def println_def printOut_def deleteNamespaces_cluster
      deleteNamespaces_files deleteNamespaces_stdout)

theorem Uninstall_returns_nil_witness:
  "Uninstall (namespaceKube (Some forbiddenError)) (DefaultConfig ''local'' ''direct'')
       (emptyWorld 0)
     = (None,
        \<lparr> cluster = 3, files = [],
          stdout =
            [''\<newline>'' @ arrow @ '' Removing kubac components...\<newline>'',
             ''  Deleting namespace kubac-system...\<newline>'',
             ''  Warning: failed to delete namespace kubac-system: namespaces is forbidden\<newline>'',
             ''  Deleting namespace kyverno...\<newline>'',
             ''  Warning: failed to delete namespace kyverno: namespaces is forbidden\<newline>'',
             ''  Deleting namespace kubac-demo...\<newline>'',
             ''  Warning: failed to delete namespace kubac-demo: namespaces is forbidden\<newline>''] \<rparr>)"
proof -
  let ?run = "Uninstall (namespaceKube (Some forbiddenError)) (DefaultConfig ''local'' ''direct'')
       (emptyWorld 0)"
  have "fst ?run = None" using Uninstall_returns_nil [of "namespaceKube (Some forbiddenError)"
      "DefaultConfig ''local'' ''direct''" "emptyWorld 0"] by simp
  moreover have "snd ?run = \<lparr> cluster = 3, files = [],
          stdout =
            [''\<newline>'' @ arrow @ '' Removing kubac components...\<newline>'',
             ''  Deleting namespace kubac-system...\<newline>'',
             ''  Warning: failed to delete namespace kubac-system: namespaces is forbidden\<newline>'',
             ''  Deleting namespace kyverno...\<newline>'',
             ''  Warning: failed to delete namespace kyverno: namespaces is forbidden\<newline>'',
             ''  Deleting namespace kubac-demo...\<newline>'',
             ''  Warning: failed to delete namespace kubac-demo: namespaces is forbidden\<newline>''] \<rparr>"
    by (simp add: Uninstall_def println_def printOut_def uninstallNamespaces_def
        DefaultConfig_def namespaceKube_def forbiddenError_def isNotFound_def emptyWorld_def
        Let_def)
  ultimately show ?thesis by (metis prod.collapse)
qed

lemma succeed_cluster: "cluster (snd (succeed s)) = cluster s"
  by (simp add: succeed_def)

lemma printOut_cluster: "cluster (snd (printOut txt s)) = cluster s"
  by (simp add: printOut_def)

lemma println_cluster: "cluster (snd (println line s)) = cluster s"
  by (simp add: println_def printOut_cluster)

lemma onFiles_cluster: "cluster (snd (onFiles f s)) = cluster s"
  by (simp add: onFiles_def split: prod.splits)

lemma andThen_cluster:
  assumes "\<And>s. cluster (snd (f s)) = cluster s" and "\<And>s. cluster (snd (g s)) = cluster s"
  shows "cluster (snd (andThen f g s)) = cluster s"
proof (cases "f s")
  case (Pair r s')
  have "cluster s' = cluster s" using assms(1) [of s] Pair by simp
  then show ?thesis using assms(2) [of s'] Pair by (cases r) (simp_all add: andThen_def)
qed

lemma wrapError_cluster:
  assumes "\<And>s. cluster (snd (f s)) = cluster s"
  shows "cluster (snd (wrapError prefix f s)) = cluster s"
proof (cases "f s")
  case (Pair r s')
  then show ?thesis using assms [of s] by (cases r) (simp_all add: wrapError_def)
qed

lemma makeDirs_cluster: "cluster (snd (makeDirs h dirs s)) = cluster s"
proof (induction dirs arbitrary: s)
  case Nil
  show ?case by simp
next
  case (Cons dir dirs)
  have step: "cluster (snd (wrapError (''failed to create directory '' @ dir @ '': '')
                  (onFiles (MkdirAll h dir)) s)) = cluster s"
    by (rule wrapError_cluster) (rule onFiles_cluster)
  show ?case
  proof (cases "wrapError (''failed to create directory '' @ dir @ '': '')
                  (onFiles (MkdirAll h dir)) s")
    case (Pair r s')
    then show ?thesis using step Cons.IH [of s'] by (cases r) simp_all
  qed
qed

lemma RenderGitOpsManifests_cluster:
  "cluster (snd (RenderGitOpsManifests h cfg destPath s)) = cluster s"
  unfolding RenderGitOpsManifests_def renderFluxBootstrap_def renderKustomizations_def Let_def
  by (intro andThen_cluster onFiles_cluster succeed_cluster)

lemma installGitOps_cluster: "cluster (snd (installGitOps k h cfg s)) = cluster s"
  unfolding installGitOps_def Let_def
  by (intro andThen_cluster wrapError_cluster println_cluster printOut_cluster makeDirs_cluster
      RenderGitOpsManifests_cluster succeed_cluster)

lemma createNamespace_state:
  "snd (createNamespace k name c) = snd (NamespacesCreate k name c)"
  by (simp add: createNamespace_def split: prod.splits)

text \<open>
  C5, as amended. \<open>installGitOps\<close> leaves the cluster as it finds it: it makes no call to
  the cluster and no readiness check, and only creates directories and writes
  manifests. \<open>Install\<close> in gitops mode makes one call to the cluster, the creation of
  the namespace kubac-system, which it performs before it looks at the mode.
\<close>

theorem gitops_only_creates_namespace:
  "cluster (snd (installGitOps k h cfg s)) = cluster s
   \<and> (Mode cfg = ''gitops'' \<longrightarrow>
        cluster (snd (Install k h cfg s)) = snd (NamespacesCreate k ''kubac-system'' (cluster s)))"
proof (intro conjI impI)
  show "cluster (snd (installGitOps k h cfg s)) = cluster s" by (rule installGitOps_cluster)
next
  assume gitops: "Mode cfg = ''gitops''"
  let ?line = "''\<newline>'' @ arrow @ '' Creating kubac-system namespace...''"
  obtain s1 where s1: "println ?line s = (None, s1)" and c1: "cluster s1 = cluster s"
    by (simp add: println_def printOut_def)
  obtain r c2 where ns: "createNamespace k ''kubac-system'' (cluster s) = (r, c2)"
    by (cases "createNamespace k ''kubac-system'' (cluster s)")
  have c2: "c2 = snd (NamespacesCreate k ''kubac-system'' (cluster s))"
    using createNamespace_state [of k "''kubac-system''" "cluster s"] ns by simp
  show "cluster (snd (Install k h cfg s)) = snd (NamespacesCreate k ''kubac-system'' (cluster s))"
  proof (cases r)
    case None
    then show ?thesis
      using gitops s1 c1 ns c2 installGitOps_cluster [of k h cfg "s1\<lparr>cluster := c2\<rparr>"]
      by (simp add: Install_def andThen_def onCluster_def)
  next
    case (Some err)
    then show ?thesis using gitops s1 c1 ns c2
      by (simp add: Install_def andThen_def onCluster_def)
  qed
qed

theorem gitops_only_creates_namespace_witness:
  "Mode (DefaultConfig ''managed'' ''gitops'') = ''gitops''
   \<and> cluster (snd (Install (namespaceKube None) memoryHost (DefaultConfig ''managed'' ''gitops'')
                     (emptyWorld 0))) = 1"
  using gitops_only_creates_namespace [of "namespaceKube None" memoryHost
      "DefaultConfig ''managed'' ''gitops''" "emptyWorld 0"]
  by (simp add: DefaultConfig_def namespaceKube_def emptyWorld_def)

text \<open>
  C5, as stated, fails: an install in gitops mode changes the cluster (here the
  cluster counts the calls made to it).
\<close>

theorem gitops_install_mutates_cluster:
  "Mode (DefaultConfig ''managed'' ''gitops'') = ''gitops''
   \<and> cluster (snd (Install (namespaceKube None) memoryHost (DefaultConfig ''managed'' ''gitops'')
                     (emptyWorld 0)))
      \<noteq> cluster (emptyWorld 0 :: (nat, (string \<times> string) list) world)"
  by (simp add: DefaultConfig_def namespaceKube_def emptyWorld_def Install_def andThen_def
      println_def printOut_def onCluster_def createNamespace_def installGitOps_cluster)

lemma andThen_assoc: "andThen (andThen f g) h = andThen f (andThen g h)"
  by (rule ext) (simp add: andThen_def split: prod.splits option.splits)

lemma andThen_succeed: "andThen f succeed = f"
  by (rule ext) (simp add: andThen_def succeed_def split: prod.splits option.splits)

lemma succeed_andThen: "andThen succeed f = f"
  by (rule ext) (simp add: andThen_def succeed_def)

lemma wrapError_println_first:
  "wrapError prefix (andThen (println line) f) = andThen (println line) (wrapError prefix f)"
  by (rule ext) (simp add: wrapError_def andThen_def println_def printOut_def)

lemma wrapError_println_last:
  "wrapError prefix (andThen f (println line)) = andThen (wrapError prefix f) (println line)"
  by (rule ext)
    (simp add: wrapError_def andThen_def println_def printOut_def split: prod.splits option.splits)

lemma runSteps_Cons:
  "runSteps (step # steps) =
     andThen (whenEnabled (stepEnabled step) (wrapError (stepName step) (stepAction step)))
       (runSteps steps)"
  by (rule ext)
    (simp add: andThen_def whenEnabled_def wrapError_def succeed_def
      split: prod.splits option.splits)

lemma runSteps_Nil: "runSteps [] = succeed"
  by (rule ext) (simp add: succeed_def)

lemma whenEnabled_andThen:
  "andThen (whenEnabled b f) (andThen (whenEnabled b g) h) = andThen (whenEnabled b (andThen f g)) h"
  by (cases b) (simp_all add: whenEnabled_def succeed_andThen andThen_assoc)

lemma installDirect_runSteps: "installDirect k h cfg = runSteps (directSteps k h cfg)"
  unfolding directSteps_def installDirect_def runSteps_Cons runSteps_Nil
  by (simp add: wrapError_println_first wrapError_println_last whenEnabled_andThen andThen_assoc)

lemma runSteps_append:
  "runSteps (xs @ ys) s =
     (case runSteps xs s of (Some err, s') \<Rightarrow> (Some err, s') | (None, s') \<Rightarrow> runSteps ys s')"
  by (induction xs arbitrary: s) (simp_all split: prod.splits option.splits)

lemma runSteps_abort:
  assumes "stepEnabled failing" and "fst (runSteps before s) = None"
    and "fst (stepAction failing (snd (runSteps before s))) = Some err"
  shows "runSteps (before @ failing # following) s =
           (Some (Wrapped (stepName failing) err),
            snd (stepAction failing (snd (runSteps before s))))"
proof -
  obtain s1 where s1: "runSteps before s = (None, s1)"
    using assms(2) by (metis prod.collapse)
  obtain s2 where s2: "stepAction failing s1 = (Some err, s2)"
    using assms(3) s1 by (metis prod.collapse snd_conv)
  show ?thesis using assms(1) s1 s2 by (simp add: runSteps_append)
qed

text \<open>
  C4. \<open>installDirect\<close> is the sequencer run on the steps of direct mode
  (\<open>installDirect_runSteps\<close>). When the steps before an enabled step succeed and the
  action of that step fails, the install returns the error wrapped with the name of
  the step, in the state in which the failing action left the world: the effects of
  the earlier steps are kept and no later step adds to them; the install equals the
  run of the steps up to the failing one.
\<close>

theorem installDirect_aborts_at_failing_step:
  "directSteps k h cfg = before @ failing # following
     \<and> stepEnabled failing
     \<and> fst (runSteps before s) = None
     \<and> fst (stepAction failing (snd (runSteps before s))) = Some err
   \<longrightarrow> installDirect k h cfg s =
         (Some (Wrapped (stepName failing) err),
          snd (stepAction failing (snd (runSteps before s))))
       \<and> installDirect k h cfg s = runSteps (before @ [failing]) s"
proof
  assume a: "directSteps k h cfg = before @ failing # following
     \<and> stepEnabled failing
     \<and> fst (runSteps before s) = None
     \<and> fst (stepAction failing (snd (runSteps before s))) = Some err"
  have whole: "runSteps (before @ failing # following) s =
         (Some (Wrapped (stepName failing) err),
          snd (stepAction failing (snd (runSteps before s))))"
    using a by (intro runSteps_abort) simp_all
  have part: "runSteps (before @ failing # []) s =
         (Some (Wrapped (stepName failing) err),
          snd (stepAction failing (snd (runSteps before s))))"
    using a by (intro runSteps_abort) simp_all
  show "installDirect k h cfg s =
         (Some (Wrapped (stepName failing) err),
          snd (stepAction failing (snd (runSteps before s))))
       \<and> installDirect k h cfg s = runSteps (before @ [failing]) s"
    using a whole part by (simp add: installDirect_runSteps)
qed

lemma Ext_examples: "Ext ''README.md'' = ''.md''" "Ext ''install.yaml'' = ''.yaml''"
  by (simp_all add: Ext_def)

lemma applyManifests_memoryHost:
  "map_of fs (path @ ''/install.yaml'') = Some name \<Longrightarrow>
   applyManifests (loggingKube rejected) memoryHost path \<lparr> cluster = c, files = fs, stdout = out \<rparr> =
     (if name = rejected
      then (Some (Wrapped (''failed to apply manifest '' @ path @ ''/install.yaml: '')
                    (ErrorString ''the server rejected the request'')),
            \<lparr> cluster = c, files = fs, stdout = out \<rparr>)
      else (None, \<lparr> cluster = c @ [name], files = fs, stdout = out \<rparr>))"
  by (simp add: applyManifests_def memoryHost_def Ext_examples applyManifest_def onCluster_def
      loggingKube_def)

theorem installDirect_aborts_at_failing_step_witness:
  "fst (installDirect (loggingKube ''kube-state-metrics'') memoryHost
          (DefaultConfig ''local'' ''direct'')
          \<lparr> cluster = [], files = bundleFiles, stdout = [] \<rparr>)
     = Some (Wrapped ''failed to install kube-state-metrics: ''
              (Wrapped ''failed to apply manifest bundles/platform/kube-state-metrics/install.yaml: ''
                (ErrorString ''the server rejected the request'')))
   \<and> cluster (snd (installDirect (loggingKube ''kube-state-metrics'') memoryHost
          (DefaultConfig ''local'' ''direct'')
          \<lparr> cluster = [], files = bundleFiles, stdout = [] \<rparr>))
     = [''metrics-server'']"
proof -
  let ?k = "loggingKube ''kube-state-metrics''"
  let ?cfg = "DefaultConfig ''local'' ''direct''"
  let ?s = "\<lparr> cluster = [], files = bundleFiles, stdout = [] \<rparr> :: (string list, (string \<times> string) list) world"
  let ?steps = "directSteps ?k memoryHost ?cfg"
  let ?err = "Wrapped ''failed to apply manifest bundles/platform/kube-state-metrics/install.yaml: ''
                (ErrorString ''the server rejected the request'')"
  have split: "?steps = take 1 ?steps @ (?steps ! 1) # drop 2 ?steps"
    by (simp add: directSteps_def)
  have enabled: "stepEnabled (?steps ! 1)"
    by (simp add: directSteps_def DefaultConfig_def)
  have first: "runSteps (take 1 ?steps) ?s =
      (None, \<lparr> cluster = [''metrics-server''], files = bundleFiles,
               stdout = [''\<newline>'' @ arrow @ '' Installing metrics-server...\<newline>'',
                         ''  '' @ checkMark @ '' metrics-server installed\<newline>''] \<rparr>)"
    by (simp add: directSteps_def DefaultConfig_def andThen_def println_def printOut_def
        applyManifests_memoryHost [where name = "''metrics-server''"] bundleFiles_def)
  have second: "stepAction (?steps ! 1) (snd (runSteps (take 1 ?steps) ?s)) =
      (Some ?err, \<lparr> cluster = [''metrics-server''], files = bundleFiles,
               stdout = [''\<newline>'' @ arrow @ '' Installing metrics-server...\<newline>'',
                         ''  '' @ checkMark @ '' metrics-server installed\<newline>'',
                         ''\<newline>'' @ arrow @ '' Installing kube-state-metrics...\<newline>''] \<rparr>)"
    unfolding first
    by (simp add: directSteps_def andThen_def println_def printOut_def
        applyManifests_memoryHost [where name = "''kube-state-metrics''"] bundleFiles_def)
  have "installDirect ?k memoryHost ?cfg ?s =
         (Some (Wrapped (stepName (?steps ! 1)) ?err),
          snd (stepAction (?steps ! 1) (snd (runSteps (take 1 ?steps) ?s))))"
    using installDirect_aborts_at_failing_step [of ?k memoryHost ?cfg "take 1 ?steps"
        "?steps ! 1" "drop 2 ?steps" ?s ?err] split enabled first second
    by simp
  then show ?thesis unfolding second by (simp add: directSteps_def)
qed

section \<open>Round trip of the configuration\<close>



















end
